theory Spec2Isabelle
  imports Main "HOL-Library.Word"
begin

section \<open>Data model of the SELECT pipeline builder (InterpreterSelectQuery)\<close>

text \<open>
  The development embeds \<^verbatim>\<open>InterpreterSelectQuery\<close> (src/unnamed/part_000):
  the functions that decide which streaming operators are attached to the pipeline
  of a SELECT query.  C++ \<^verbatim>\<open>size_t\<close> and \<^verbatim>\<open>UInt64\<close> are 64-bit words,
  so \<open>+\<close> wraps around as it does in the source.
\<close>

type_synonym size_t = "64 word"
type_synonym UInt64 = "64 word"
type_synonym Names = "string list"

subsection \<open>Processing stages\<close>

text \<open>
  Modelled from the spec: the declaration of enum \<^verbatim>\<open>QueryProcessingStage::Enum\<close> is not
  under src/.  The spec (section 3) gives it as the ordered enum
  FetchColumns < WithMergeableState < Complete; the C++ comparison operators on the
  enum compare the underlying integers, here \<open>stage_rank\<close>.
\<close>

datatype QueryProcessingStage = FetchColumns | WithMergeableState | Complete

text \<open>
  Modelled from the spec: the position of a stage in the order of the enum, whose
  declaration is not under src/, and the comparisons \<^verbatim>\<open><\<close> and \<^verbatim>\<open><=\<close> on it.
\<close>

fun stage_rank :: "QueryProcessingStage \<Rightarrow> nat" where
  "stage_rank FetchColumns = 0"
| "stage_rank WithMergeableState = 1"
| "stage_rank Complete = 2"

definition stage_lt :: "QueryProcessingStage \<Rightarrow> QueryProcessingStage \<Rightarrow> bool" where
  "stage_lt a b = (stage_rank a < stage_rank b)"

definition stage_le :: "QueryProcessingStage \<Rightarrow> QueryProcessingStage \<Rightarrow> bool" where
  "stage_le a b = (stage_rank a \<le> stage_rank b)"

subsection \<open>The parsed query\<close>

text \<open>
  An expression of the AST is represented by its column name
  (\<^verbatim>\<open>getColumnName()\<close>); a clause pointer that may be null is an \<open>option\<close>.
  The LIMIT literals are taken to be UInt64 literals, the only ones for which
  \<^verbatim>\<open>safeGet<UInt64>\<close> returns.
\<close>

record ASTOrderByElement =
  column_name :: string
  direction :: int
  nulls_direction :: int
  collation :: "string option"

datatype JoinKind = Inner | Left | Right | Full | Cross

record select_clauses =
  distinct_q :: bool
  prewhere_expression :: "string option"
  where_expression :: "string option"
  group_expression_list :: "Names option"
  group_by_with_totals :: bool
  having_expression :: "string option"
  order_expression_list :: "ASTOrderByElement list option"
  limit_by_value :: "UInt64 option"
  limit_by_expression_list :: "Names option"
  limit_length :: "UInt64 option"
  limit_offset :: "UInt64 option"
  partition_expression_list :: "Names option"
  no_kvstore :: bool
  join :: "JoinKind option"

text \<open>
  \<^verbatim>\<open>ASTSelectQuery\<close>: the clauses of one SELECT and its table expression
  (\<^verbatim>\<open>query.table()\<close>), which is absent, a table name, a table function or a
  subquery \<^verbatim>\<open>ASTSelectWithUnionQuery\<close> with its \<^verbatim>\<open>list_of_selects\<close>.
\<close>

datatype ASTSelectQuery =
  ASTSelectQuery (clauses: select_clauses) (table: "table_expression option")
and table_expression =
  ASTIdentifier string
| ASTFunction string
| ASTSelectWithUnionQuery (list_of_selects: "ASTSelectQuery list")

subsection \<open>Settings\<close>

datatype OverflowMode = THROW | BREAK | ANY

datatype TotalsMode =
  BEFORE_HAVING | AFTER_HAVING_INCLUSIVE | AFTER_HAVING_EXCLUSIVE | AFTER_HAVING_AUTO

text \<open>
  The settings read by the builder.  \<^verbatim>\<open>max_streams_to_max_threads_ratio\<close> is a
  floating-point setting; the field holds the effect of
  \<^verbatim>\<open>max_streams *= ratio\<close> on the stream count.  Time limits are left out.
\<close>

record Settings =
  max_threads :: size_t
  max_distributed_connections :: size_t
  max_block_size :: size_t
  max_columns_to_read :: UInt64
  max_streams_to_max_threads_ratio :: "size_t \<Rightarrow> size_t"
  regions :: string
  max_rows_to_read :: UInt64
  max_bytes_to_read :: UInt64
  read_overflow_mode :: OverflowMode
  max_rows_to_group_by :: UInt64
  group_by_overflow_mode :: OverflowMode
  totals_mode :: TotalsMode
  group_by_two_level_threshold :: UInt64
  group_by_two_level_threshold_bytes :: UInt64
  max_bytes_before_external_group_by :: UInt64
  empty_result_for_aggregation_by_empty_set :: bool
  aggregation_memory_efficient_merge_threads :: UInt64
  distributed_aggregation_memory_efficient :: bool
  max_rows_to_sort :: UInt64
  max_bytes_to_sort :: UInt64
  sort_overflow_mode :: OverflowMode
  max_bytes_before_external_sort :: UInt64
  max_rows_in_distinct :: UInt64
  max_bytes_in_distinct :: UInt64
  distinct_overflow_mode :: OverflowMode
  extremes :: bool
  max_rows_to_transfer :: UInt64
  max_bytes_to_transfer :: UInt64
  transfer_overflow_mode :: OverflowMode
  max_result_rows :: UInt64
  max_result_bytes :: UInt64
  max_subquery_depth :: UInt64

subsection \<open>Operators (block input streams)\<close>

type_synonym Block = Names

text \<open>
  An expression program is opaque to the builder.  It is identified by the step of the
  expression chain it was taken from, whether it was built for types only (a dry
  step), and whether \<^verbatim>\<open>prependProjectInput\<close> was applied to it.
\<close>

datatype ChainStep =
  JoinStep | WhereStep | AggregationStep | HavingStep | OrderAndSelectStep
| LimitByStep | ProjectResultStep | AliasStep

record ExpressionActions =
  step :: ChainStep
  only_types :: bool
  project_input :: bool

record SizeLimits =
  max_rows :: UInt64
  max_bytes :: UInt64
  overflow_mode :: OverflowMode

record SortColumnDescription =
  sort_column_name :: string
  sort_direction :: int
  sort_nulls_direction :: int
  collator :: "string option"

type_synonym SortDescription = "SortColumnDescription list"

record AggregateDescription =
  argument_names :: Names
  arguments :: "nat list"

text \<open>\<^verbatim>\<open>Aggregator::Params\<close>, without the temporary path.\<close>

record AggregatorParams =
  src_header :: Block
  keys :: "nat list"
  aggregates :: "AggregateDescription list"
  overflow_row :: bool
  params_max_rows_to_group_by :: UInt64
  params_group_by_overflow_mode :: OverflowMode
  params_group_by_two_level_threshold :: UInt64
  params_group_by_two_level_threshold_bytes :: UInt64
  params_max_bytes_before_external_group_by :: UInt64
  params_empty_result_for_aggregation_by_empty_set :: bool

text \<open>
  The operators the builder composes, each with the constructor arguments the source
  passes (request ids, file providers and paths left out).  A source operator that the
  builder receives (prepared input, storage or subquery stream) is \<open>SourceStream\<close>.
  The calls that set an attribute of an existing stream (\<^verbatim>\<open>addTableLock\<close>,
  \<^verbatim>\<open>setLimits\<close>, \<^verbatim>\<open>setQuota\<close>, \<^verbatim>\<open>enableExtremes\<close>) are the last four
  constructors: the same stream with the attribute set.  The flag of \<open>SetLimits\<close> tells
  whether the minimum-speed limits were set with the size limits, which the source does
  on the coordinator's final stage only.
\<close>

datatype BlockInputStream =
  SourceStream nat
| NullBlockInputStream Block
| NonJoinedDataStream ExpressionActions Block nat nat size_t
| ExpressionBlockInputStream BlockInputStream ExpressionActions
| FilterBlockInputStream BlockInputStream ExpressionActions string
| ParallelAggregatingBlockInputStream
    "BlockInputStream list" "BlockInputStream list" AggregatorParams bool size_t size_t
| ConcatBlockInputStream "BlockInputStream list"
| AggregatingBlockInputStream BlockInputStream AggregatorParams bool
| MergingAggregatedBlockInputStream BlockInputStream AggregatorParams bool size_t
| MergingAggregatedMemoryEfficientBlockInputStream
    "BlockInputStream list" AggregatorParams bool size_t size_t
| TotalsHavingBlockInputStream
    BlockInputStream bool "ExpressionActions option" string TotalsMode
| PartialSortingBlockInputStream BlockInputStream SortDescription size_t
| MergeSortingBlockInputStream BlockInputStream SortDescription size_t size_t size_t
| AsynchronousBlockInputStream BlockInputStream
| MergingSortedBlockInputStream "BlockInputStream list" SortDescription size_t size_t
| DistinctSortedBlockInputStream BlockInputStream SizeLimits size_t Names
| DistinctBlockInputStream BlockInputStream SizeLimits size_t Names
| UnionBlockInputStream "BlockInputStream list" "BlockInputStream list" size_t
| LimitBlockInputStream BlockInputStream size_t size_t bool
| LimitByBlockInputStream BlockInputStream UInt64 Names
| CreatingSetsBlockInputStream BlockInputStream Names SizeLimits
| AddTableLock BlockInputStream
| SetLimits BlockInputStream SizeLimits bool
| SetQuota BlockInputStream
| EnableExtremes BlockInputStream

subsection \<open>The pipeline\<close>

text \<open>
  Modelled from the spec: struct \<^verbatim>\<open>Pipeline\<close> is declared in the header of the class,
  which is not under src/.  The spec (sections 2 and 3) gives it as a collection of
  operator-chain heads (streams) plus an auxiliary collection for the non-matched rows
  of right/full outer joins, with helpers to transform every chain uniformly, to take
  the first chain, and to report whether more than one chain is held.
  \<open>firstStream\<close> is \<^verbatim>\<open>streams.at(0)\<close>: \<open>None\<close> where that throws.
\<close>

record Pipeline =
  streams :: "BlockInputStream list"
  streams_with_non_joined_data :: "BlockInputStream list"

text \<open>
  Modelled from the spec: the helpers of struct \<^verbatim>\<open>Pipeline\<close> (not under src/), as the
  spec gives them: \<open>transform\<close> applies a function to every chain of both collections,
  \<open>firstStream\<close> is the first main stream, and \<open>hasMoreThanOneStream\<close> counts the chains
  of both collections.  \<open>set_firstStream\<close> is the assignment to \<^verbatim>\<open>firstStream()\<close>.
\<close>

definition transform :: "(BlockInputStream \<Rightarrow> BlockInputStream) \<Rightarrow> Pipeline \<Rightarrow> Pipeline" where
  "transform f pipeline =
     pipeline\<lparr>streams := map f (streams pipeline),
              streams_with_non_joined_data := map f (streams_with_non_joined_data pipeline)\<rparr>"

definition firstStream :: "Pipeline \<Rightarrow> BlockInputStream option" where
  "firstStream pipeline = (case streams pipeline of [] \<Rightarrow> None | s # _ \<Rightarrow> Some s)"

definition set_firstStream :: "BlockInputStream \<Rightarrow> Pipeline \<Rightarrow> Pipeline" where
  "set_firstStream s pipeline = pipeline\<lparr>streams := (streams pipeline)[0 := s]\<rparr>"

definition hasMoreThanOneStream :: "Pipeline \<Rightarrow> bool" where
  "hasMoreThanOneStream pipeline =
     (length (streams pipeline) + length (streams_with_non_joined_data pipeline) > 1)"

subsection \<open>Errors\<close>

text \<open>
  Every exception of the source is a value.  The pipeline is passed by reference, so
  an exception leaves it as it was at the throw: the error carries that pipeline.
  \<open>STD_OUT_OF_RANGE\<close> is the exception of \<^verbatim>\<open>vector::at\<close>, \<open>NULL_POINTER\<close> a
  dereferenced null clause, \<open>EXCEPTION_0\<close> an exception thrown without a code.  An
  exception that comes out of the nested build of a subquery keeps its code.
\<close>

datatype ErrorCode =
  TOO_MANY_COLUMNS | LOGICAL_ERROR | NOT_IMPLEMENTED | NOT_FOUND_COLUMN_IN_BLOCK
| TOO_DEEP_SUBQUERIES | STD_OUT_OF_RANGE | NULL_POINTER | EXCEPTION_0

type_synonym 'a result = "(ErrorCode \<times> Pipeline) + 'a"

definition bind_result :: "'a result \<Rightarrow> ('a \<Rightarrow> 'b result) \<Rightarrow> 'b result" where
  "bind_result r f = (case r of Inl e \<Rightarrow> Inl e | Inr x \<Rightarrow> f x)"

subsection \<open>The interpreter and its collaborators\<close>

datatype ColumnDefaultKind = Default | Materialized | Alias

datatype StorageEngine = TMT | DT | UNSUPPORTED_ENGINES

text \<open>
  The storage (source adapter).  \<open>read\<close> takes the required columns, the batch-size
  hint and the stream-count hint and returns the stage it processed the query to
  together with its streams; \<open>engineType\<close> is \<open>None\<close> for a storage that is not an
  \<^verbatim>\<open>IManageableStorage\<close>.
\<close>

record IStorage =
  isRemote :: bool
  aliases :: Names
  defaults :: "string \<Rightarrow> ColumnDefaultKind option"
  engineType :: "StorageEngine option"
  read :: "Names \<Rightarrow> size_t \<Rightarrow> size_t \<Rightarrow> QueryProcessingStage \<times> BlockInputStream list"
  getSampleBlockForColumns :: "Names \<Rightarrow> Block"

text \<open>
  The answers of the \<^verbatim>\<open>ExpressionAnalyzer\<close> that do not follow from the clauses of
  the query.
\<close>

record ExpressionAnalyzer =
  hasAggregation :: bool
  getRequiredSourceColumns :: Names
  required_output :: Names
  getSubqueriesForSets :: Names
  getAggregateInfo :: "Names \<times> AggregateDescription list"

text \<open>
  The constructor arguments of an \<^verbatim>\<open>InterpreterSelectQuery\<close>; the interpreter holds a
  clone of its query, which it may modify.
\<close>

record select_interpreter =
  query :: ASTSelectQuery
  settings :: Settings
  required_result_column_names :: Names
  to_stage :: QueryProcessingStage
  subquery_depth :: nat

text \<open>
  Modelled from the spec: class \<^verbatim>\<open>InterpreterSelectWithUnionQuery\<close> is not under src/.
  The spec (sections 4.2 and 6) gives the subquery source as a nested pipeline-builder
  invocation at depth + 1; the interpreter of a subquery holds one nested SELECT
  interpreter for each SELECT of the union, and \<open>ignoreWithTotals_union\<close> forwards to
  each of them.
\<close>

record InterpreterSelectWithUnionQuery =
  nested_interpreters :: "select_interpreter list"

text \<open>
  Modelled from the spec: the constructor of \<^verbatim>\<open>InterpreterSelectWithUnionQuery\<close> (not
  under src/) creates the nested SELECT interpreters, one for each SELECT of the union,
  with the settings, required columns, target stage and depth it is given.
\<close>

definition new_InterpreterSelectWithUnionQuery ::
  "ASTSelectQuery list \<Rightarrow> Settings \<Rightarrow> Names \<Rightarrow> QueryProcessingStage \<Rightarrow> nat
     \<Rightarrow> InterpreterSelectWithUnionQuery" where
  "new_InterpreterSelectWithUnionQuery selects s required stage depth =
     \<lparr>nested_interpreters =
        map (\<lambda>q. \<lparr>query = q, settings = s, required_result_column_names = required,
                  to_stage = stage, subquery_depth = depth\<rparr>) selects\<rparr>"

text \<open>
  The interpreter: its arguments, the stream-count member \<^verbatim>\<open>max_streams\<close>, the
  storage (null when reading from a subquery or a prepared input), the analyzer, and
  the collaborators' answers: the header of a stream, whether a stream reports grouped
  output, whether it is an \<^verbatim>\<open>IProfilingBlockInputStream\<close>, the columns an alias
  expression needs, and the array of region descriptions parsed from the
  \<^verbatim>\<open>regions\<close> setting.  A call to the storage or to the analyzer is taken to return.
  The interpreter of a subquery in FROM runs this same builder on the nested SELECTs,
  and its exceptions come out of the function that calls it: \<open>subquery_init\<close> is the
  exception, if any, of constructing the nested interpreters after their depth check
  (table lookup, analysis, the SAMPLE, FINAL and PREWHERE checks),
  \<open>subquery_executeWithMultipleStreams\<close> is the exception or the streams of the nested
  build, and \<open>subquery_getSampleBlock\<close> the exception or the header of the nested dry
  run.
\<close>

record InterpreterSelectQuery = select_interpreter +
  max_streams :: size_t
  storage :: "IStorage option"
  query_analyzer :: ExpressionAnalyzer
  getHeader :: "BlockInputStream \<Rightarrow> Block"
  isGroupedOutput :: "BlockInputStream \<Rightarrow> bool"
  isProfiling :: "BlockInputStream \<Rightarrow> bool"
  alias_required_columns :: "Names \<Rightarrow> Names"
  subquery_init :: "InterpreterSelectWithUnionQuery \<Rightarrow> ErrorCode option"
  subquery_executeWithMultipleStreams ::
    "InterpreterSelectWithUnionQuery \<Rightarrow> ErrorCode + BlockInputStream list"
  subquery_getSampleBlock :: "InterpreterSelectWithUnionQuery \<Rightarrow> ErrorCode + Block"
  parse_regions :: "string \<Rightarrow> string list"

section \<open>The builder's functions\<close>

subsection \<open>LIMIT literals\<close>

definition getLimitLengthAndOffset :: "ASTSelectQuery \<Rightarrow> size_t \<times> size_t" where
  "getLimitLengthAndOffset q =
     (case limit_length (clauses q) of
        None \<Rightarrow> (0, 0)
      | Some len \<Rightarrow>
          (len, case limit_offset (clauses q) of None \<Rightarrow> 0 | Some off \<Rightarrow> off))"

subsection \<open>Stage analysis\<close>

record AnalysisResult =
  first_stage :: bool
  second_stage :: bool
  need_aggregate :: bool
  has_join :: bool
  has_where :: bool
  has_having :: bool
  has_order_by :: bool
  has_limit_by :: bool
  before_join :: "ExpressionActions option"
  before_where :: "ExpressionActions option"
  before_aggregation :: "ExpressionActions option"
  before_having :: "ExpressionActions option"
  before_order_and_select :: ExpressionActions
  before_limit_by :: "ExpressionActions option"
  final_projection :: ExpressionActions
  selected_columns :: Names
  subqueries_for_sets :: Names

text \<open>
  Modelled from the spec: the \<^verbatim>\<open>append...\<close> functions of \<^verbatim>\<open>ExpressionAnalyzer\<close> are
  not under src/.  The spec (section 3, compiled plan) has a step's expression program
  present iff that relational clause exists in the source query: each function returns
  whether its clause exists.  \<open>appendJoin\<close> is the one for the JOIN clause.
\<close>

definition appendJoin :: "ASTSelectQuery \<Rightarrow> bool" where
  "appendJoin q = (join (clauses q) \<noteq> None)"

text \<open>
  Modelled from the spec: \<^verbatim>\<open>appendWhere\<close> (not under src/) returns whether the WHERE clause
  exists.
\<close>

definition appendWhere :: "ASTSelectQuery \<Rightarrow> bool" where
  "appendWhere q = (where_expression (clauses q) \<noteq> None)"

text \<open>
  Modelled from the spec: \<^verbatim>\<open>appendHaving\<close> (not under src/) returns whether the HAVING clause
  exists.
\<close>

definition appendHaving :: "ASTSelectQuery \<Rightarrow> bool" where
  "appendHaving q = (having_expression (clauses q) \<noteq> None)"

text \<open>
  Modelled from the spec: \<^verbatim>\<open>appendOrderBy\<close> (not under src/) returns whether the ORDER BY clause
  exists.
\<close>

definition appendOrderBy :: "ASTSelectQuery \<Rightarrow> bool" where
  "appendOrderBy q = (order_expression_list (clauses q) \<noteq> None)"

text \<open>
  Modelled from the spec: \<^verbatim>\<open>appendLimitBy\<close> (not under src/) returns whether the LIMIT BY clause
  exists.
\<close>

definition appendLimitBy :: "ASTSelectQuery \<Rightarrow> bool" where
  "appendLimitBy q = (limit_by_expression_list (clauses q) \<noteq> None)"

text \<open>The expression program taken from a step of the chain.\<close>

definition actions :: "ChainStep \<Rightarrow> bool \<Rightarrow> bool \<Rightarrow> ExpressionActions" where
  "actions st dry proj = \<lparr>step = st, only_types = dry, project_input = proj\<rparr>"

text \<open>
  \<^verbatim>\<open>analyzeExpressions\<close>.  The programs \<open>before_where\<close> and \<open>before_having\<close> get
  \<^verbatim>\<open>prependProjectInput\<close> at the end, the others do not.
\<close>

definition analyzeExpressions ::
  "'a InterpreterSelectQuery_scheme \<Rightarrow> QueryProcessingStage \<Rightarrow> AnalysisResult" where
  "analyzeExpressions i from_stage =
     (let first = (stage_lt from_stage WithMergeableState
                   \<and> stage_le WithMergeableState (to_stage i));
          second = (stage_le from_stage WithMergeableState
                    \<and> stage_lt WithMergeableState (to_stage i));
          need_agg = hasAggregation (query_analyzer i);
          hj = appendJoin (query i);
          hw = appendWhere (query i);
          hh = (need_agg \<and> appendHaving (query i));
          hl = appendLimitBy (query i);
          dry_select = (if need_agg then \<not> second else \<not> first)
      in \<lparr>first_stage = first,
          second_stage = second,
          need_aggregate = need_agg,
          has_join = hj,
          has_where = hw,
          has_having = hh,
          has_order_by = appendOrderBy (query i),
          has_limit_by = hl,
          before_join = (if hj then Some (actions JoinStep (\<not> first) False) else None),
          before_where = (if hw then Some (actions WhereStep (\<not> first) True) else None),
          before_aggregation =
            (if need_agg then Some (actions AggregationStep (\<not> first) False) else None),
          before_having = (if hh then Some (actions HavingStep (\<not> second) True) else None),
          before_order_and_select = actions OrderAndSelectStep dry_select False,
          before_limit_by =
            (if hl then Some (actions LimitByStep (\<not> second) False) else None),
          final_projection = actions ProjectResultStep False False,
          selected_columns = required_output (query_analyzer i),
          subqueries_for_sets = getSubqueriesForSets (query_analyzer i)\<rparr>)"

subsection \<open>Union\<close>

text \<open>
  \<^verbatim>\<open>executeUnion\<close>: the switch on the total number of chains.  In case 1 with no
  main stream the side channel holds exactly one stream, so \<^verbatim>\<open>at(0)\<close> is in range.
  In the default case \<^verbatim>\<open>resize(1)\<close> followed by the assignment to the first stream
  leaves the union as the only stream.
\<close>

definition executeUnion :: "'a InterpreterSelectQuery_scheme \<Rightarrow> Pipeline \<Rightarrow> Pipeline" where
  "executeUnion i pipeline =
     (let n = length (streams pipeline) + length (streams_with_non_joined_data pipeline)
      in if n = 0 then pipeline
         else if n = 1 then
           (if length (streams pipeline) = 1 then pipeline
            else pipeline\<lparr>streams := streams pipeline @ [streams_with_non_joined_data pipeline ! 0],
                          streams_with_non_joined_data := []\<rparr>)
         else
           pipeline\<lparr>streams :=
                      [UnionBlockInputStream (streams pipeline)
                         (streams_with_non_joined_data pipeline) (max_streams i)],
                    streams_with_non_joined_data := []\<rparr>)"

subsection \<open>Distinct\<close>

definition executeDistinct ::
  "'a InterpreterSelectQuery_scheme \<Rightarrow> Pipeline \<Rightarrow> bool \<Rightarrow> Names \<Rightarrow> Pipeline" where
  "executeDistinct i pipeline before_order columns =
     (if distinct_q (clauses (query i)) then
        (let (len, off) = getLimitLengthAndOffset (query i);
             limit_for_distinct =
               (if order_expression_list (clauses (query i)) = None \<or> \<not> before_order
                then len + off else 0);
             limits = \<lparr>max_rows = max_rows_in_distinct (settings i),
                       max_bytes = max_bytes_in_distinct (settings i),
                       overflow_mode = distinct_overflow_mode (settings i)\<rparr>
         in transform
              (\<lambda>stream.
                 if isGroupedOutput i stream
                 then DistinctSortedBlockInputStream stream limits limit_for_distinct columns
                 else DistinctBlockInputStream stream limits limit_for_distinct columns)
              pipeline)
      else pipeline)"

subsection \<open>Sorting\<close>

definition getSortDescription :: "ASTSelectQuery \<Rightarrow> SortDescription option" where
  "getSortDescription q =
     (case order_expression_list (clauses q) of
        None \<Rightarrow> None
      | Some elems \<Rightarrow>
          Some (map (\<lambda>elem. \<lparr>sort_column_name = column_name elem,
                             sort_direction = direction elem,
                             sort_nulls_direction = nulls_direction elem,
                             collator = collation elem\<rparr>) elems))"

definition getLimitForSorting :: "ASTSelectQuery \<Rightarrow> size_t" where
  "getLimitForSorting q =
     (if \<not> distinct_q (clauses q) \<and> limit_by_expression_list (clauses q) = None then
        (let (len, off) = getLimitLengthAndOffset q
         in len + off)
      else 0)"

definition sort_limits :: "Settings \<Rightarrow> SizeLimits" where
  "sort_limits s = \<lparr>max_rows = max_rows_to_sort s, max_bytes = max_bytes_to_sort s,
                    overflow_mode = sort_overflow_mode s\<rparr>"

definition executeOrder :: "'a InterpreterSelectQuery_scheme \<Rightarrow> Pipeline \<Rightarrow> Pipeline result" where
  "executeOrder i pipeline =
     (case getSortDescription (query i) of
        None \<Rightarrow> Inl (NULL_POINTER, pipeline)
      | Some order_descr \<Rightarrow>
          (let limit = getLimitForSorting (query i);
               p1 = transform
                      (\<lambda>stream.
                         SetLimits (PartialSortingBlockInputStream stream order_descr limit)
                           (sort_limits (settings i)) False)
                      pipeline;
               p2 = executeUnion i p1
           in case firstStream p2 of
                None \<Rightarrow> Inl (STD_OUT_OF_RANGE, p2)
              | Some s \<Rightarrow>
                  Inr (set_firstStream
                         (MergeSortingBlockInputStream s order_descr
                            (max_block_size (settings i)) limit
                            (max_bytes_before_external_sort (settings i)))
                         p2)))"

definition executeMergeSorted ::
  "'a InterpreterSelectQuery_scheme \<Rightarrow> Pipeline \<Rightarrow> Pipeline result" where
  "executeMergeSorted i pipeline =
     (case getSortDescription (query i) of
        None \<Rightarrow> Inl (NULL_POINTER, pipeline)
      | Some order_descr \<Rightarrow>
          (let limit = getLimitForSorting (query i)
           in if hasMoreThanOneStream pipeline then
                (let p1 = transform AsynchronousBlockInputStream pipeline
                 in case firstStream p1 of
                      None \<Rightarrow> Inl (STD_OUT_OF_RANGE, p1)
                    | Some _ \<Rightarrow>
                        Inr (p1\<lparr>streams :=
                                  [MergingSortedBlockInputStream (streams p1) order_descr
                                     (max_block_size (settings i)) limit]\<rparr>))
              else Inr pipeline))"

subsection \<open>Limit\<close>

fun hasWithTotalsInAnySubqueryInFromClause :: "ASTSelectQuery \<Rightarrow> bool" where
  "hasWithTotalsInAnySubqueryInFromClause (ASTSelectQuery c query_table) =
     (if group_by_with_totals c then True
      else (case query_table of
              Some (ASTSelectWithUnionQuery selects) \<Rightarrow>
                list_ex hasWithTotalsInAnySubqueryInFromClause selects
            | _ \<Rightarrow> False))"

definition executePreLimit :: "'a InterpreterSelectQuery_scheme \<Rightarrow> Pipeline \<Rightarrow> Pipeline" where
  "executePreLimit i pipeline =
     (let (len, off) = getLimitLengthAndOffset (query i)
      in if limit_length (clauses (query i)) \<noteq> None then
           transform (\<lambda>stream. LimitBlockInputStream stream (len + off) 0 False)
             pipeline
         else pipeline)"

definition always_read_till_end :: "ASTSelectQuery \<Rightarrow> bool" where
  "always_read_till_end q =
     (let flag0 = False;
          flag1 = (if group_by_with_totals (clauses q)
                      \<and> order_expression_list (clauses q) = None then True else flag0);
          flag2 = (if \<not> group_by_with_totals (clauses q)
                      \<and> hasWithTotalsInAnySubqueryInFromClause q then True else flag1)
      in flag2)"

definition executeLimit :: "'a InterpreterSelectQuery_scheme \<Rightarrow> Pipeline \<Rightarrow> Pipeline" where
  "executeLimit i pipeline =
     (let (len, off) = getLimitLengthAndOffset (query i)
      in if limit_length (clauses (query i)) \<noteq> None then
           transform
             (\<lambda>stream. LimitBlockInputStream stream len off
                          (always_read_till_end (query i)))
             pipeline
         else pipeline)"

subsection \<open>Filters, expressions and the remaining single-step builders\<close>

text \<open>
  The column name of the filter is read from the clause inside the transformation, so
  a missing clause is only dereferenced when the pipeline holds a stream.
\<close>

definition no_streams :: "Pipeline \<Rightarrow> bool" where
  "no_streams pipeline =
     (streams pipeline = [] \<and> streams_with_non_joined_data pipeline = [])"

definition executeWhere ::
  "'a InterpreterSelectQuery_scheme \<Rightarrow> Pipeline \<Rightarrow> ExpressionActions \<Rightarrow> Pipeline result" where
  "executeWhere i pipeline expression =
     (case where_expression (clauses (query i)) of
        None \<Rightarrow> if no_streams pipeline then Inr pipeline else Inl (NULL_POINTER, pipeline)
      | Some name \<Rightarrow>
          Inr (transform (\<lambda>stream. FilterBlockInputStream stream expression name) pipeline))"

definition executeHaving ::
  "'a InterpreterSelectQuery_scheme \<Rightarrow> Pipeline \<Rightarrow> ExpressionActions \<Rightarrow> Pipeline result" where
  "executeHaving i pipeline expression =
     (case having_expression (clauses (query i)) of
        None \<Rightarrow> if no_streams pipeline then Inr pipeline else Inl (NULL_POINTER, pipeline)
      | Some name \<Rightarrow>
          Inr (transform (\<lambda>stream. FilterBlockInputStream stream expression name) pipeline))"

definition executeExpression :: "Pipeline \<Rightarrow> ExpressionActions \<Rightarrow> Pipeline" where
  "executeExpression pipeline expression =
     transform (\<lambda>stream. ExpressionBlockInputStream stream expression) pipeline"

definition executeProjection :: "Pipeline \<Rightarrow> ExpressionActions \<Rightarrow> Pipeline" where
  "executeProjection pipeline expression =
     transform (\<lambda>stream. ExpressionBlockInputStream stream expression) pipeline"

definition executeTotalsAndHaving ::
  "'a InterpreterSelectQuery_scheme \<Rightarrow> Pipeline \<Rightarrow> bool \<Rightarrow> ExpressionActions option \<Rightarrow> bool
     \<Rightarrow> Pipeline result" where
  "executeTotalsAndHaving i pipeline has_hav expression overflow =
     (let p1 = executeUnion i pipeline
      in case firstStream p1 of
           None \<Rightarrow> Inl (STD_OUT_OF_RANGE, p1)
         | Some s \<Rightarrow>
             (if has_hav then
                (case having_expression (clauses (query i)) of
                   None \<Rightarrow> Inl (NULL_POINTER, p1)
                 | Some name \<Rightarrow>
                     Inr (set_firstStream
                            (TotalsHavingBlockInputStream s overflow expression name
                               (totals_mode (settings i))) p1))
              else
                Inr (set_firstStream
                       (TotalsHavingBlockInputStream s overflow expression []
                          (totals_mode (settings i))) p1)))"

definition executeLimitBy :: "'a InterpreterSelectQuery_scheme \<Rightarrow> Pipeline \<Rightarrow> Pipeline" where
  "executeLimitBy i pipeline =
     (case (limit_by_value (clauses (query i)), limit_by_expression_list (clauses (query i))) of
        (Some v, Some columns) \<Rightarrow>
          transform (\<lambda>stream. LimitByBlockInputStream stream v columns) pipeline
      | _ \<Rightarrow> pipeline)"

text \<open>
  Setting an attribute does not change the class of a stream: the dynamic cast to
  \<^verbatim>\<open>IProfilingBlockInputStream\<close> is asked of the stream under its attributes.
\<close>

fun object_of :: "BlockInputStream \<Rightarrow> BlockInputStream" where
  "object_of (AddTableLock s) = object_of s"
| "object_of (SetLimits s l m) = object_of s"
| "object_of (SetQuota s) = object_of s"
| "object_of (EnableExtremes s) = object_of s"
| "object_of s = s"

definition executeExtremes :: "'a InterpreterSelectQuery_scheme \<Rightarrow> Pipeline \<Rightarrow> Pipeline" where
  "executeExtremes i pipeline =
     (if \<not> extremes (settings i) then pipeline
      else transform
             (\<lambda>stream. if isProfiling i (object_of stream) then EnableExtremes stream else stream)
             pipeline)"

definition executeSubqueriesInSetsAndJoins ::
  "'a InterpreterSelectQuery_scheme \<Rightarrow> Pipeline \<Rightarrow> Names \<Rightarrow> Pipeline result" where
  "executeSubqueriesInSetsAndJoins i pipeline subqueries =
     (let p1 = executeUnion i pipeline
      in case firstStream p1 of
           None \<Rightarrow> Inl (STD_OUT_OF_RANGE, p1)
         | Some s \<Rightarrow>
             Inr (set_firstStream
                    (CreatingSetsBlockInputStream s subqueries
                       \<lparr>max_rows = max_rows_to_transfer (settings i),
                        max_bytes = max_bytes_to_transfer (settings i),
                        overflow_mode = transfer_overflow_mode (settings i)\<rparr>) p1))"

subsection \<open>Aggregation\<close>

text \<open>\<^verbatim>\<open>Block::getPositionByName\<close>: the position of a column, or no such column.\<close>

fun getPositionByName :: "Block \<Rightarrow> string \<Rightarrow> nat option" where
  "getPositionByName [] name = None"
| "getPositionByName (c # cs) name =
     (if c = name then Some 0 else map_option Suc (getPositionByName cs name))"

definition fill_arguments :: "Block \<Rightarrow> AggregateDescription \<Rightarrow> AggregateDescription option" where
  "fill_arguments header descr =
     (if arguments descr = [] then
        (case those (map (getPositionByName header) (argument_names descr)) of
           None \<Rightarrow> None
         | Some ps \<Rightarrow> Some (descr\<lparr>arguments := ps\<rparr>))
      else Some descr)"

definition executeAggregation ::
  "'a InterpreterSelectQuery_scheme \<Rightarrow> Pipeline \<Rightarrow> ExpressionActions \<Rightarrow> bool \<Rightarrow> bool
     \<Rightarrow> Pipeline result" where
  "executeAggregation i pipeline expression overflow final =
     (let p1 = transform (\<lambda>stream. ExpressionBlockInputStream stream expression) pipeline;
          (key_names, aggs) = getAggregateInfo (query_analyzer i)
      in case firstStream p1 of
           None \<Rightarrow> Inl (STD_OUT_OF_RANGE, p1)
         | Some first \<Rightarrow>
             (let header = getHeader i first
              in case (those (map (getPositionByName header) key_names),
                       those (map (fill_arguments header) aggs)) of
                   (Some ks, Some aggs') \<Rightarrow>
                     (let s = settings i;
                          allow_to_use_two_level_group_by =
                            (length (streams p1) > 1
                             \<or> max_bytes_before_external_group_by s \<noteq> 0);
                          params =
                            \<lparr>src_header = header, keys = ks, aggregates = aggs',
                             overflow_row = overflow,
                             params_max_rows_to_group_by = max_rows_to_group_by s,
                             params_group_by_overflow_mode = group_by_overflow_mode s,
                             params_group_by_two_level_threshold =
                               (if allow_to_use_two_level_group_by
                                then group_by_two_level_threshold s else 0),
                             params_group_by_two_level_threshold_bytes =
                               (if allow_to_use_two_level_group_by
                                then group_by_two_level_threshold_bytes s else 0),
                             params_max_bytes_before_external_group_by =
                               max_bytes_before_external_group_by s,
                             params_empty_result_for_aggregation_by_empty_set =
                               empty_result_for_aggregation_by_empty_set s\<rparr>
                      in if length (streams p1) > 1
                            \<or> length (streams_with_non_joined_data p1) > 1
                         then
                           Inr (p1\<lparr>streams :=
                                     [ParallelAggregatingBlockInputStream (streams p1)
                                        (streams_with_non_joined_data p1) params final
                                        (max_streams i)
                                        (if aggregation_memory_efficient_merge_threads s \<noteq> 0
                                         then aggregation_memory_efficient_merge_threads s
                                         else max_threads s)],
                                   streams_with_non_joined_data := []\<rparr>)
                         else
                           (let inputs =
                                  [first] @ take 1 (streams_with_non_joined_data p1)
                            in Inr (p1\<lparr>streams :=
                                         [AggregatingBlockInputStream
                                            (ConcatBlockInputStream inputs) params final],
                                       streams_with_non_joined_data := []\<rparr>)))
                 | _ \<Rightarrow> Inl (NOT_FOUND_COLUMN_IN_BLOCK, p1)))"

text \<open>
  \<^verbatim>\<open>executeMergeAggregated\<close>.  The four-argument constructor of the parameters leaves
  the limits and thresholds at zero.
\<close>

definition executeMergeAggregated ::
  "'a InterpreterSelectQuery_scheme \<Rightarrow> Pipeline \<Rightarrow> bool \<Rightarrow> bool \<Rightarrow> Pipeline result" where
  "executeMergeAggregated i pipeline overflow final =
     (let (key_names, aggs) = getAggregateInfo (query_analyzer i)
      in case firstStream pipeline of
           None \<Rightarrow> Inl (STD_OUT_OF_RANGE, pipeline)
         | Some first \<Rightarrow>
             (let header = getHeader i first
              in case those (map (getPositionByName header) key_names) of
                   None \<Rightarrow> Inl (NOT_FOUND_COLUMN_IN_BLOCK, pipeline)
                 | Some ks \<Rightarrow>
                     (let s = settings i;
                          params =
                            \<lparr>src_header = header, keys = ks, aggregates = aggs,
                             overflow_row = overflow,
                             params_max_rows_to_group_by = 0,
                             params_group_by_overflow_mode = THROW,
                             params_group_by_two_level_threshold = 0,
                             params_group_by_two_level_threshold_bytes = 0,
                             params_max_bytes_before_external_group_by = 0,
                             params_empty_result_for_aggregation_by_empty_set = False\<rparr>
                      in if \<not> distributed_aggregation_memory_efficient s then
                           (let p1 = executeUnion i pipeline
                            in case firstStream p1 of
                                 None \<Rightarrow> Inl (STD_OUT_OF_RANGE, p1)
                               | Some u \<Rightarrow>
                                   Inr (set_firstStream
                                          (MergingAggregatedBlockInputStream u params final
                                             (max_threads s)) p1))
                         else
                           Inr (pipeline\<lparr>streams :=
                                  [MergingAggregatedMemoryEfficientBlockInputStream
                                     (streams pipeline) params final (max_streams i)
                                     (if aggregation_memory_efficient_merge_threads s \<noteq> 0
                                      then aggregation_memory_efficient_merge_threads s
                                      else max_threads s)]\<rparr>))))"

subsection \<open>Ignoring WITH TOTALS\<close>

definition ignoreWithTotals :: "'a select_interpreter_scheme \<Rightarrow> 'a select_interpreter_scheme" where
  "ignoreWithTotals i =
     i\<lparr>query := ASTSelectQuery ((clauses (query i))\<lparr>group_by_with_totals := False\<rparr>)
                  (table (query i))\<rparr>"

text \<open>
  Modelled from the spec: \<^verbatim>\<open>InterpreterSelectWithUnionQuery::ignoreWithTotals\<close> is not
  under src/; with the subquery a nested pipeline-builder invocation per SELECT, it
  calls \<open>ignoreWithTotals\<close> of every nested interpreter.
\<close>

definition ignoreWithTotals_union ::
  "InterpreterSelectWithUnionQuery \<Rightarrow> InterpreterSelectWithUnionQuery" where
  "ignoreWithTotals_union u =
     u\<lparr>nested_interpreters := map ignoreWithTotals (nested_interpreters u)\<rparr>"

subsection \<open>Fetching the columns\<close>

text \<open>
  The local variables of \<^verbatim>\<open>executeFetchColumns\<close> up to the column limit: the alias
  actions and the columns to read, and the interpreter of a subquery in FROM.
\<close>

definition alias_actions_and_columns ::
  "'a InterpreterSelectQuery_scheme \<Rightarrow> ExpressionActions option \<times> Names" where
  "alias_actions_and_columns i =
     (let required_columns = getRequiredSourceColumns (query_analyzer i)
      in case storage i of
           None \<Rightarrow> (None, required_columns)
         | Some st \<Rightarrow>
             (if aliases st \<noteq> []
                 \<and> list_ex (\<lambda>column. defaults st column = Some Alias) required_columns
              then (Some (actions AliasStep False False),
                    alias_required_columns i required_columns)
              else (None, required_columns)))"

text \<open>
  The depth check at the start of \<^verbatim>\<open>init\<close>, which every interpreter runs when it is
  constructed: too deep when the cap is non-zero and the depth exceeds it.
\<close>

definition too_deep_subqueries :: "Settings \<Rightarrow> nat \<Rightarrow> bool" where
  "too_deep_subqueries s depth =
     (max_subquery_depth s \<noteq> 0 \<and> unat (max_subquery_depth s) < depth)"

text \<open>
  The exception, if any, of constructing the interpreter of a subquery in FROM: the
  nested interpreters are constructed at depth + 1 and run the depth check first.  Then
  \<open>interpreter_subquery\<close>, the interpreter that the construction returns, after the
  conditional call of \<open>ignoreWithTotals\<close>.
\<close>

definition subquery_construction_error ::
  "'a InterpreterSelectQuery_scheme \<Rightarrow> Names \<Rightarrow> ErrorCode option" where
  "subquery_construction_error i required_columns =
     (case table (query i) of
        Some (ASTSelectWithUnionQuery selects) \<Rightarrow>
          (let subquery_settings =
                 (settings i)\<lparr>max_result_rows := 0, max_result_bytes := 0, extremes := False\<rparr>;
               sub = new_InterpreterSelectWithUnionQuery selects subquery_settings
                       required_columns Complete (subquery_depth i + 1)
           in if selects \<noteq> [] \<and> too_deep_subqueries subquery_settings (subquery_depth i + 1)
              then Some TOO_DEEP_SUBQUERIES
              else subquery_init i sub)
      | _ \<Rightarrow> None)"

definition interpreter_subquery ::
  "'a InterpreterSelectQuery_scheme \<Rightarrow> Names \<Rightarrow> InterpreterSelectWithUnionQuery option" where
  "interpreter_subquery i required_columns =
     (case table (query i) of
        Some (ASTSelectWithUnionQuery selects) \<Rightarrow>
          (let subquery_settings =
                 (settings i)\<lparr>max_result_rows := 0, max_result_bytes := 0, extremes := False\<rparr>;
               sub = new_InterpreterSelectWithUnionQuery selects subquery_settings
                       required_columns Complete (subquery_depth i + 1)
           in Some (if hasAggregation (query_analyzer i)
                    then ignoreWithTotals_union sub else sub))
      | _ \<Rightarrow> None)"

text \<open>
  The batch-size hint and the interpreter with its stream count after the LIMIT
  optimisation; \<open>i\<close> already holds the stream count chosen for a remote storage.
\<close>

definition limit_optimization ::
  "'a InterpreterSelectQuery_scheme \<Rightarrow> size_t \<times> 'a InterpreterSelectQuery_scheme" where
  "limit_optimization i =
     (let (len, off) = getLimitLengthAndOffset (query i);
          c = clauses (query i)
      in if \<not> distinct_q c
            \<and> prewhere_expression c = None
            \<and> where_expression c = None
            \<and> group_expression_list c = None
            \<and> having_expression c = None
            \<and> order_expression_list c = None
            \<and> limit_by_expression_list c = None
            \<and> limit_length c \<noteq> None
            \<and> \<not> hasAggregation (query_analyzer i)
            \<and> len + off < max_block_size (settings i)
         then (len + off, i\<lparr>max_streams := 1\<rparr>)
         else (max_block_size (settings i), i))"

definition read_limits :: "Settings \<Rightarrow> SizeLimits" where
  "read_limits s = \<lparr>max_rows = max_rows_to_read s, max_bytes = max_bytes_to_read s,
                    overflow_mode = read_overflow_mode s\<rparr>"

text \<open>
  Reading from the table.  The learner read and its validation belong to the storage
  and are not modelled; in a dry run the storage is not read.
\<close>

definition fetch_from_storage ::
  "'a InterpreterSelectQuery_scheme \<Rightarrow> IStorage \<Rightarrow> bool \<Rightarrow> Names \<Rightarrow> size_t \<Rightarrow> bool \<Rightarrow> Pipeline
     \<Rightarrow> (QueryProcessingStage \<times> 'a InterpreterSelectQuery_scheme \<times> Pipeline) result" where
  "fetch_from_storage i st is_remote required_columns block_size dry_run pipeline =
     (if max_streams i = 0 then Inl (LOGICAL_ERROR, pipeline)
      else
        (let i1 = (if 1 < max_streams i \<and> \<not> is_remote
                   then i\<lparr>max_streams :=
                            max_streams_to_max_threads_ratio (settings i) (max_streams i)\<rparr>
                   else i);
             request_str = regions (settings i)
         in if request_str \<noteq> [] \<and> engineType st = None then Inl (EXCEPTION_0, pipeline)
            else if request_str \<noteq> [] \<and> parse_regions i request_str = []
            then Inl (LOGICAL_ERROR, pipeline)
            else if partition_expression_list (clauses (query i)) \<noteq> None
            then Inl (EXCEPTION_0, pipeline)
            else
              (let (from_stage, ss) =
                     (if \<not> dry_run then read st required_columns block_size (max_streams i1)
                      else (FetchColumns, streams pipeline));
                   p1 = pipeline\<lparr>streams := ss\<rparr>;
                   p2 = (if streams p1 = []
                         then p1\<lparr>streams :=
                                   [NullBlockInputStream
                                      (getSampleBlockForColumns st required_columns)]\<rparr>
                         else p1);
                   p3 = transform AddTableLock p2;
                   p4 = transform
                          (\<lambda>stream.
                             if isProfiling i (object_of stream) then
                               (let s1 = SetLimits stream (read_limits (settings i))
                                           (to_stage i = Complete)
                                in if to_stage i = Complete then SetQuota s1 else s1)
                             else stream)
                          p3
               in Inr (from_stage, i1, p4))))"

definition executeFetchColumns ::
  "'a InterpreterSelectQuery_scheme \<Rightarrow> Pipeline \<Rightarrow> bool
     \<Rightarrow> (QueryProcessingStage \<times> 'a InterpreterSelectQuery_scheme \<times> Pipeline) result" where
  "executeFetchColumns i pipeline dry_run =
     (let (alias_actions, required_columns) = alias_actions_and_columns i;
          sub = interpreter_subquery i required_columns
      in case subquery_construction_error i required_columns of
           Some e \<Rightarrow> Inl (e, pipeline)
         | None \<Rightarrow>
      if \<not> dry_run \<and> max_columns_to_read (settings i) \<noteq> 0
            \<and> length required_columns > unat (max_columns_to_read (settings i))
         then Inl (TOO_MANY_COLUMNS, pipeline)
         else
           (let is_remote = (case storage i of None \<Rightarrow> False | Some st \<Rightarrow> isRemote st);
                i1 = (if is_remote
                      then i\<lparr>max_streams := max_distributed_connections (settings i)\<rparr>
                      else i);
                (block_size, i2) = limit_optimization i1;
                fetched =
                  (if streams pipeline \<noteq> [] then Inr (FetchColumns, i2, pipeline)
                   else
                     (case sub of
                        Some interp \<Rightarrow>
                          (if \<not> dry_run
                           then (case subquery_executeWithMultipleStreams i interp of
                                   Inl e \<Rightarrow> Inl (e, pipeline)
                                 | Inr ss \<Rightarrow>
                                     Inr (FetchColumns, i2, pipeline\<lparr>streams := ss\<rparr>))
                           else (case subquery_getSampleBlock i interp of
                                   Inl e \<Rightarrow> Inl (e, pipeline)
                                 | Inr header \<Rightarrow>
                                     Inr (FetchColumns, i2,
                                          pipeline\<lparr>streams :=
                                            [NullBlockInputStream header]\<rparr>)))
                      | None \<Rightarrow>
                          (case storage i of
                             Some st \<Rightarrow>
                               fetch_from_storage i2 st is_remote required_columns
                                 block_size dry_run pipeline
                           | None \<Rightarrow> Inl (LOGICAL_ERROR, pipeline))))
            in bind_result fetched
                 (\<lambda>(from_stage, i3, p).
                    (case alias_actions of
                       Some a \<Rightarrow>
                         (if from_stage = FetchColumns
                          then Inr (from_stage, i3,
                                    transform (\<lambda>stream. ExpressionBlockInputStream stream a) p)
                          else Inr (from_stage, i3, p))
                     | None \<Rightarrow> Inr (from_stage, i3, p)))))"

subsection \<open>The pipeline builder\<close>

text \<open>
  The blocks of \<^verbatim>\<open>executeImpl\<close> that run under \<^verbatim>\<open>expressions.first_stage\<close> and
  \<^verbatim>\<open>expressions.second_stage\<close>, then the function itself.  An expression program
  that the analysis did not produce is a null pointer where it is used.
\<close>

definition execute_join ::
  "'a InterpreterSelectQuery_scheme \<Rightarrow> AnalysisResult \<Rightarrow> Pipeline \<Rightarrow> Pipeline result" where
  "execute_join i expressions pipeline =
     (case (join (clauses (query i)), before_join expressions) of
        (Some kind, Some bj) \<Rightarrow>
          bind_result
            (if kind = Full \<or> kind = Right then
               (case firstStream pipeline of
                  None \<Rightarrow> Inl (STD_OUT_OF_RANGE, pipeline)
                | Some s \<Rightarrow>
                    Inr (pipeline\<lparr>streams_with_non_joined_data :=
                           streams_with_non_joined_data pipeline
                           @ [NonJoinedDataStream bj (getHeader i s) 0 1
                                (max_block_size (settings i))]\<rparr>))
             else Inr pipeline)
            (\<lambda>p. Inr (p\<lparr>streams :=
                          map (\<lambda>stream. ExpressionBlockInputStream stream bj) (streams p)\<rparr>))
      | _ \<Rightarrow> Inl (NULL_POINTER, pipeline))"

definition execute_first_stage ::
  "'a InterpreterSelectQuery_scheme \<Rightarrow> AnalysisResult \<Rightarrow> bool \<Rightarrow> bool \<Rightarrow> Pipeline
     \<Rightarrow> Pipeline result" where
  "execute_first_stage i expressions aggregate_overflow_row aggregate_final pipeline =
     bind_result
       (if has_join expressions then execute_join i expressions pipeline else Inr pipeline)
       (\<lambda>p1.
     bind_result
       (if has_where expressions then
          (case before_where expressions of
             None \<Rightarrow> Inl (NULL_POINTER, p1)
           | Some bw \<Rightarrow> executeWhere i p1 bw)
        else Inr p1)
       (\<lambda>p2.
     bind_result
       (if need_aggregate expressions then
          (case before_aggregation expressions of
             None \<Rightarrow> Inl (NULL_POINTER, p2)
           | Some ba \<Rightarrow> executeAggregation i p2 ba aggregate_overflow_row aggregate_final)
        else
          Inr (executeDistinct i
                 (executeExpression p2 (before_order_and_select expressions))
                 True (selected_columns expressions)))
       (\<lambda>p3.
     if \<not> second_stage expressions \<and> \<not> need_aggregate expressions
        \<and> \<not> has_having expressions
     then
       bind_result
         (if has_order_by expressions then executeOrder i p3 else Inr p3)
         (\<lambda>p4.
            (let p5 = (if has_order_by expressions
                          \<and> limit_length (clauses (query i)) \<noteq> None
                       then executeDistinct i p4 False (selected_columns expressions)
                       else p4)
             in Inr (if limit_length (clauses (query i)) \<noteq> None
                     then executePreLimit i p5 else p5)))
     else Inr p3)))"

text \<open>
  The second-stage block in three parts, in the order of the source: the branch on
  \<^verbatim>\<open>need_aggregate\<close>, which also decides \<^verbatim>\<open>need_second_distinct_pass\<close>; the ORDER BY
  branch; and the steps from the preliminary LIMIT to the final LIMIT.
\<close>

definition second_stage_aggregate ::
  "'a InterpreterSelectQuery_scheme \<Rightarrow> AnalysisResult \<Rightarrow> bool \<Rightarrow> bool \<Rightarrow> Pipeline
     \<Rightarrow> (bool \<times> Pipeline) result" where
  "second_stage_aggregate i expressions aggregate_overflow_row aggregate_final pipeline =
     (if need_aggregate expressions then
        bind_result
          (if \<not> first_stage expressions
           then executeMergeAggregated i pipeline aggregate_overflow_row aggregate_final
           else Inr pipeline)
          (\<lambda>q1.
        bind_result
          (if \<not> aggregate_final
           then executeTotalsAndHaving i q1 (has_having expressions)
                  (before_having expressions) aggregate_overflow_row
           else if has_having expressions then
             (case before_having expressions of
                None \<Rightarrow> Inl (NULL_POINTER, q1)
              | Some bh \<Rightarrow> executeHaving i q1 bh)
           else Inr q1)
          (\<lambda>q2.
             (let q3 = executeDistinct i
                         (executeExpression q2 (before_order_and_select expressions))
                         True (selected_columns expressions)
              in Inr (distinct_q (clauses (query i)) \<and> hasMoreThanOneStream q3, q3))))
      else
        (let need_second = (distinct_q (clauses (query i)) \<and> hasMoreThanOneStream pipeline)
         in if group_by_with_totals (clauses (query i)) \<and> \<not> aggregate_final
            then bind_result
                   (executeTotalsAndHaving i pipeline False None aggregate_overflow_row)
                   (\<lambda>q1. Inr (need_second, q1))
            else Inr (need_second, pipeline)))"

definition second_stage_order ::
  "'a InterpreterSelectQuery_scheme \<Rightarrow> AnalysisResult \<Rightarrow> bool \<Rightarrow> Pipeline \<Rightarrow> Pipeline result" where
  "second_stage_order i expressions aggregate_final pipeline =
     (if has_order_by expressions then
        (if \<not> first_stage expressions \<and> \<not> need_aggregate expressions
            \<and> \<not> (group_by_with_totals (clauses (query i)) \<and> \<not> aggregate_final)
         then executeMergeSorted i pipeline
         else executeOrder i pipeline)
      else Inr pipeline)"

definition second_stage_finish ::
  "'a InterpreterSelectQuery_scheme \<Rightarrow> AnalysisResult \<Rightarrow> bool \<Rightarrow> Pipeline \<Rightarrow> Pipeline result" where
  "second_stage_finish i expressions need_second_distinct_pass pipeline =
     (let p3 = (if limit_length (clauses (query i)) \<noteq> None \<and> hasMoreThanOneStream pipeline
                   \<and> \<not> distinct_q (clauses (query i))
                   \<and> \<not> has_limit_by expressions \<and> \<not> extremes (settings i)
                then executePreLimit i pipeline else pipeline);
          need_merge_streams =
            (need_second_distinct_pass
             \<or> limit_length (clauses (query i)) \<noteq> None
             \<or> limit_by_expression_list (clauses (query i)) \<noteq> None
             \<or> streams_with_non_joined_data p3 \<noteq> []);
          p4 = (if need_merge_streams then executeUnion i p3 else p3);
          p5 = (if need_second_distinct_pass
                then executeDistinct i p4 False (selected_columns expressions)
                else p4)
      in bind_result
           (if has_limit_by expressions then
              (case before_limit_by expressions of
                 None \<Rightarrow> Inl (NULL_POINTER, p5)
               | Some bl \<Rightarrow> Inr (executeLimitBy i (executeExpression p5 bl)))
            else Inr p5)
           (\<lambda>p6.
              Inr (executeLimit i
                     (executeExtremes i
                        (executeProjection p6 (final_projection expressions))))))"

definition execute_second_stage ::
  "'a InterpreterSelectQuery_scheme \<Rightarrow> AnalysisResult \<Rightarrow> bool \<Rightarrow> bool \<Rightarrow> Pipeline
     \<Rightarrow> Pipeline result" where
  "execute_second_stage i expressions aggregate_overflow_row aggregate_final pipeline =
     bind_result
       (second_stage_aggregate i expressions aggregate_overflow_row aggregate_final pipeline)
       (\<lambda>(need_second_distinct_pass, p1).
          bind_result (second_stage_order i expressions aggregate_final p1)
            (\<lambda>p2. second_stage_finish i expressions need_second_distinct_pass p2))"

definition executeImpl ::
  "'a InterpreterSelectQuery_scheme \<Rightarrow> Pipeline \<Rightarrow> BlockInputStream option \<Rightarrow> bool
     \<Rightarrow> ('a InterpreterSelectQuery_scheme \<times> Pipeline) result" where
  "executeImpl i pipeline input dry_run =
     (let p0 = (case input of
                  None \<Rightarrow> pipeline
                | Some s \<Rightarrow> pipeline\<lparr>streams := streams pipeline @ [s]\<rparr>)
      in bind_result (executeFetchColumns i p0 dry_run)
           (\<lambda>(from_stage, i1, p1).
              if from_stage = WithMergeableState \<and> to_stage i1 = WithMergeableState
              then Inl (NOT_IMPLEMENTED, p1)
              else
                (let expressions = analyzeExpressions i1 from_stage;
                     s = settings i1;
                     c = clauses (query i1)
                 in bind_result
                      (if stage_lt FetchColumns (to_stage i1) then
                         (let aggregate_overflow_row =
                                (need_aggregate expressions \<and> group_by_with_totals c
                                 \<and> max_rows_to_group_by s \<noteq> 0
                                 \<and> group_by_overflow_mode s = ANY
                                 \<and> totals_mode s \<noteq> AFTER_HAVING_EXCLUSIVE);
                              aggregate_final =
                                (need_aggregate expressions
                                 \<and> stage_lt WithMergeableState (to_stage i1)
                                 \<and> \<not> group_by_with_totals c)
                          in bind_result
                               (if first_stage expressions
                                then execute_first_stage i1 expressions aggregate_overflow_row
                                       aggregate_final p1
                                else Inr p1)
                               (\<lambda>p2.
                                  if second_stage expressions
                                  then execute_second_stage i1 expressions
                                         aggregate_overflow_row aggregate_final p2
                                  else Inr p2))
                       else Inr p1)
                      (\<lambda>p3.
                         bind_result
                           (if subqueries_for_sets expressions \<noteq> []
                            then executeSubqueriesInSetsAndJoins i1 p3
                                   (subqueries_for_sets expressions)
                            else Inr p3)
                           (\<lambda>p4. Inr (i1, p4))))))"

text \<open>
  \<^verbatim>\<open>executeWithMultipleStreams\<close>: the build on a fresh pipeline, returning its main
  streams.  This is what the interpreter of a subquery runs for a nested SELECT.
\<close>

definition executeWithMultipleStreams ::
  "'a InterpreterSelectQuery_scheme \<Rightarrow> BlockInputStream option
     \<Rightarrow> BlockInputStream list result" where
  "executeWithMultipleStreams i input =
     bind_result
       (executeImpl i \<lparr>streams = [], streams_with_non_joined_data = []\<rparr> input False)
       (\<lambda>(i1, pipeline). Inr (streams pipeline))"

section \<open>Observations on operators, and properties as the specification words them\<close>

text \<open>
  The bound a distinct operator was constructed with, and the read-till-end flag a limit
  operator was constructed with.
\<close>

fun distinct_limit_hint :: "BlockInputStream \<Rightarrow> size_t option" where
  "distinct_limit_hint (DistinctSortedBlockInputStream s l n c) = Some n"
| "distinct_limit_hint (DistinctBlockInputStream s l n c) = Some n"
| "distinct_limit_hint s = None"

fun limit_read_till_end :: "BlockInputStream \<Rightarrow> bool option" where
  "limit_read_till_end (LimitBlockInputStream s n off flag) = Some flag"
| "limit_read_till_end s = None"

text \<open>The two-level thresholds inside the parameters of an aggregating operator.\<close>

fun aggregator_thresholds :: "BlockInputStream \<Rightarrow> (UInt64 \<times> UInt64) option" where
  "aggregator_thresholds (ParallelAggregatingBlockInputStream ss ns params f m t) =
     Some (params_group_by_two_level_threshold params,
           params_group_by_two_level_threshold_bytes params)"
| "aggregator_thresholds (AggregatingBlockInputStream s params f) =
     Some (params_group_by_two_level_threshold params,
           params_group_by_two_level_threshold_bytes params)"
| "aggregator_thresholds s = None"

definition result_streams :: "Pipeline result \<Rightarrow> BlockInputStream list option" where
  "result_streams r = (case r of Inl e \<Rightarrow> None | Inr p \<Rightarrow> Some (streams p))"

text \<open>
  Some SELECT in the subquery tree of the FROM clause (the query itself excluded) has
  WITH TOTALS.
\<close>

fun from_clause_has_with_totals :: "ASTSelectQuery \<Rightarrow> bool" where
  "from_clause_has_with_totals (ASTSelectQuery c query_table) =
     (case query_table of
        Some (ASTSelectWithUnionQuery selects) \<Rightarrow>
          list_ex (\<lambda>s. group_by_with_totals (clauses s) \<or> from_clause_has_with_totals s) selects
      | _ \<Rightarrow> False)"

text \<open>
  The wording of the specification for the read-till-end flag: WITH TOTALS at this level
  without ORDER BY, or, with no WITH TOTALS at this level, some SELECT in the subquery
  tree of the FROM clause that has WITH TOTALS without its own ORDER BY.
\<close>

fun claimed_from_clause_totals_without_order :: "ASTSelectQuery \<Rightarrow> bool" where
  "claimed_from_clause_totals_without_order (ASTSelectQuery c query_table) =
     (case query_table of
        Some (ASTSelectWithUnionQuery selects) \<Rightarrow>
          list_ex (\<lambda>s. (group_by_with_totals (clauses s)
                         \<and> order_expression_list (clauses s) = None)
                        \<or> claimed_from_clause_totals_without_order s) selects
      | _ \<Rightarrow> False)"

definition claimed_always_read_till_end :: "ASTSelectQuery \<Rightarrow> bool" where
  "claimed_always_read_till_end q =
     ((group_by_with_totals (clauses q) \<and> order_expression_list (clauses q) = None)
      \<or> (\<not> group_by_with_totals (clauses q) \<and> claimed_from_clause_totals_without_order q))"

text \<open>
  A stream is free of totals when no totals-and-having operator occurs in it; a source
  stream counts as free.  A pipeline is free of totals when all its streams are.
\<close>

fun totals_free :: "BlockInputStream \<Rightarrow> bool" where
  "totals_free (TotalsHavingBlockInputStream s ov e n m) = False"
| "totals_free (SourceStream n) = True"
| "totals_free (NullBlockInputStream b) = True"
| "totals_free (NonJoinedDataStream a b x y z) = True"
| "totals_free (ExpressionBlockInputStream s a) = totals_free s"
| "totals_free (FilterBlockInputStream s a n) = totals_free s"
| "totals_free (ParallelAggregatingBlockInputStream ss ns ps f m t) =
     (list_all totals_free ss \<and> list_all totals_free ns)"
| "totals_free (ConcatBlockInputStream ss) = list_all totals_free ss"
| "totals_free (AggregatingBlockInputStream s ps f) = totals_free s"
| "totals_free (MergingAggregatedBlockInputStream s ps f t) = totals_free s"
| "totals_free (MergingAggregatedMemoryEfficientBlockInputStream ss ps f m t) =
     list_all totals_free ss"
| "totals_free (PartialSortingBlockInputStream s d l) = totals_free s"
| "totals_free (MergeSortingBlockInputStream s d b l e) = totals_free s"
| "totals_free (AsynchronousBlockInputStream s) = totals_free s"
| "totals_free (MergingSortedBlockInputStream ss d b l) = list_all totals_free ss"
| "totals_free (DistinctSortedBlockInputStream s ls l c) = totals_free s"
| "totals_free (DistinctBlockInputStream s ls l c) = totals_free s"
| "totals_free (UnionBlockInputStream ss ns m) =
     (list_all totals_free ss \<and> list_all totals_free ns)"
| "totals_free (LimitBlockInputStream s l off f) = totals_free s"
| "totals_free (LimitByBlockInputStream s v c) = totals_free s"
| "totals_free (CreatingSetsBlockInputStream s ns ls) = totals_free s"
| "totals_free (AddTableLock s) = totals_free s"
| "totals_free (SetLimits s ls m) = totals_free s"
| "totals_free (SetQuota s) = totals_free s"
| "totals_free (EnableExtremes s) = totals_free s"

definition pipeline_totals_free :: "Pipeline \<Rightarrow> bool" where
  "pipeline_totals_free p =
     (list_all totals_free (streams p) \<and> list_all totals_free (streams_with_non_joined_data p))"

definition built_totals_free :: "('a \<times> Pipeline) result \<Rightarrow> bool option" where
  "built_totals_free r =
     (case r of Inl e \<Rightarrow> None | Inr x \<Rightarrow> Some (pipeline_totals_free (snd x)))"

text \<open>
  The exception, if any, that comes out of the nested build of a subquery: of the nested
  dry run in a dry run, of the nested build of the streams otherwise.
\<close>

definition nested_build_error ::
  "'a InterpreterSelectQuery_scheme \<Rightarrow> InterpreterSelectWithUnionQuery \<Rightarrow> bool
     \<Rightarrow> ErrorCode option" where
  "nested_build_error i u dry_run =
     (if dry_run
      then (case subquery_getSampleBlock i u of Inl e \<Rightarrow> Some e | Inr header \<Rightarrow> None)
      else (case subquery_executeWithMultipleStreams i u of
              Inl e \<Rightarrow> Some e | Inr ss \<Rightarrow> None))"

text \<open>The error code of a result, if it is an error.\<close>

definition error_code :: "'a result \<Rightarrow> ErrorCode option" where
  "error_code r = (case r of Inl e \<Rightarrow> Some (fst e) | Inr x \<Rightarrow> None)"

section \<open>Example inputs\<close>

definition example_settings :: Settings where
  "example_settings =
     \<lparr>max_threads = 4, max_distributed_connections = 8, max_block_size = 65536,
      max_columns_to_read = 2, max_streams_to_max_threads_ratio = (\<lambda>n. n),
      regions = [], max_rows_to_read = 0, max_bytes_to_read = 0,
      read_overflow_mode = THROW, max_rows_to_group_by = 0,
      group_by_overflow_mode = THROW, totals_mode = AFTER_HAVING_AUTO,
      group_by_two_level_threshold = 100000,
      group_by_two_level_threshold_bytes = 100000000,
      max_bytes_before_external_group_by = 0,
      empty_result_for_aggregation_by_empty_set = False,
      aggregation_memory_efficient_merge_threads = 0,
      distributed_aggregation_memory_efficient = False,
      max_rows_to_sort = 0, max_bytes_to_sort = 0, sort_overflow_mode = THROW,
      max_bytes_before_external_sort = 0, max_rows_in_distinct = 0,
      max_bytes_in_distinct = 0, distinct_overflow_mode = THROW, extremes = False,
      max_rows_to_transfer = 0, max_bytes_to_transfer = 0,
      transfer_overflow_mode = THROW, max_result_rows = 0, max_result_bytes = 0,
      max_subquery_depth = 100\<rparr>"

definition example_clauses :: select_clauses where
  "example_clauses =
     \<lparr>distinct_q = False, prewhere_expression = None, where_expression = None,
      group_expression_list = None, group_by_with_totals = False,
      having_expression = None, order_expression_list = None, limit_by_value = None,
      limit_by_expression_list = None, limit_length = None, limit_offset = None,
      partition_expression_list = None, no_kvstore = False, join = None\<rparr>"

definition example_storage :: IStorage where
  "example_storage =
     \<lparr>isRemote = False, aliases = [], defaults = (\<lambda>c. None), engineType = None,
      read = (\<lambda>columns block_size n. (FetchColumns, [SourceStream 0, SourceStream 1])),
      getSampleBlockForColumns = (\<lambda>columns. columns)\<rparr>"

definition example_analyzer :: ExpressionAnalyzer where
  "example_analyzer =
     \<lparr>hasAggregation = False, getRequiredSourceColumns = [''k'', ''v''],
      required_output = [''k'', ''v''], getSubqueriesForSets = [],
      getAggregateInfo = ([], [])\<rparr>"

definition example_interpreter :: InterpreterSelectQuery where
  "example_interpreter =
     \<lparr>query = ASTSelectQuery example_clauses (Some (ASTIdentifier ''t'')),
      settings = example_settings, required_result_column_names = [],
      to_stage = Complete, subquery_depth = 0, max_streams = 4,
      storage = Some example_storage, query_analyzer = example_analyzer,
      getHeader = (\<lambda>s. [''k'', ''v'']), isGroupedOutput = (\<lambda>s. False),
      isProfiling = (\<lambda>s. True), alias_required_columns = (\<lambda>columns. columns),
      subquery_init = (\<lambda>u. None),
      subquery_executeWithMultipleStreams = (\<lambda>u. Inr [SourceStream 7]),
      subquery_getSampleBlock = (\<lambda>u. Inr [''k'', ''v'']),
      parse_regions = (\<lambda>r. [])\<rparr>"

definition example_pipeline :: Pipeline where
  "example_pipeline =
     \<lparr>streams = [SourceStream 0, SourceStream 1], streams_with_non_joined_data = []\<rparr>"


definition example_order_by :: "ASTOrderByElement list" where
  "example_order_by = [\<lparr>column_name = ''v'', direction = -1, nulls_direction = 1, collation = None\<rparr>]"

definition distinct_order_limit_interpreter :: InterpreterSelectQuery where
  "distinct_order_limit_interpreter =
     example_interpreter
       \<lparr>query := ASTSelectQuery
                   (example_clauses\<lparr>distinct_q := True,
                                    order_expression_list := Some example_order_by,
                                    limit_length := Some 5\<rparr>)
                   (Some (ASTIdentifier ''t''))\<rparr>"

definition distinct_group_interpreter :: InterpreterSelectQuery where
  "distinct_group_interpreter =
     distinct_order_limit_interpreter
       \<lparr>query_analyzer := example_analyzer\<lparr>hasAggregation := True\<rparr>\<rparr>"

definition totals_order_subquery :: ASTSelectQuery where
  "totals_order_subquery =
     ASTSelectQuery
       (example_clauses\<lparr>group_by_with_totals := True,
                        group_expression_list := Some [''k''],
                        order_expression_list := Some example_order_by\<rparr>)
       (Some (ASTIdentifier ''t''))"

definition limit_over_totals_query :: ASTSelectQuery where
  "limit_over_totals_query =
     ASTSelectQuery (example_clauses\<lparr>limit_length := Some 1\<rparr>)
       (Some (ASTSelectWithUnionQuery [totals_order_subquery]))"

definition order_limit_interpreter :: InterpreterSelectQuery where
  "order_limit_interpreter =
     example_interpreter
       \<lparr>query := ASTSelectQuery
                   (example_clauses\<lparr>order_expression_list := Some example_order_by,
                                    limit_length := Some 2, limit_offset := Some 1\<rparr>)
                   (Some (ASTIdentifier ''t''))\<rparr>"

definition zero_threshold_interpreter :: InterpreterSelectQuery where
  "zero_threshold_interpreter =
     example_interpreter
       \<lparr>settings := example_settings\<lparr>group_by_two_level_threshold := 0,
                                     group_by_two_level_threshold_bytes := 0\<rparr>\<rparr>"


definition mergeable_interpreter :: InterpreterSelectQuery where
  "mergeable_interpreter =
     example_interpreter
       \<lparr>to_stage := WithMergeableState,
        storage := Some (example_storage
                          \<lparr>read := (\<lambda>columns block_size n.
                                      (WithMergeableState, [SourceStream 0]))\<rparr>)\<rparr>"

text \<open>A storage that processes the query to mergeable state and returns no stream.\<close>

definition mergeable_empty_interpreter :: InterpreterSelectQuery where
  "mergeable_empty_interpreter =
     example_interpreter
       \<lparr>to_stage := WithMergeableState,
        storage := Some (example_storage
                          \<lparr>read := (\<lambda>columns block_size n. (WithMergeableState, []))\<rparr>)\<rparr>"

text \<open>
  The nested build of SELECT a FROM (SELECT x + y + z AS a FROM t): the interpreter of a
  nested SELECT reads the three columns x, y, z of the table, and the interpreter of
  the subquery runs \<open>executeWithMultipleStreams\<close> of each nested interpreter in turn.
  The outer SELECT needs the one column a; the cap on the columns is 2.
\<close>

definition nested_select_interpreter :: "select_interpreter \<Rightarrow> InterpreterSelectQuery" where
  "nested_select_interpreter n =
     example_interpreter
       \<lparr>query := query n, settings := settings n,
        required_result_column_names := required_result_column_names n,
        to_stage := to_stage n, subquery_depth := subquery_depth n,
        max_streams := max_threads (settings n),
        query_analyzer :=
          example_analyzer\<lparr>getRequiredSourceColumns := [''x'', ''y'', ''z''],
                            required_output := [''a'']\<rparr>\<rparr>"

fun build_nested :: "select_interpreter list \<Rightarrow> ErrorCode + BlockInputStream list" where
  "build_nested [] = Inr []"
| "build_nested (n # ns) =
     (case executeWithMultipleStreams (nested_select_interpreter n) None of
        Inl e \<Rightarrow> Inl (fst e)
      | Inr ss \<Rightarrow>
          (case build_nested ns of Inl e \<Rightarrow> Inl e | Inr ts \<Rightarrow> Inr (ss @ ts)))"

definition sum_over_subquery_interpreter :: InterpreterSelectQuery where
  "sum_over_subquery_interpreter =
     example_interpreter
       \<lparr>query := ASTSelectQuery example_clauses
                   (Some (ASTSelectWithUnionQuery
                            [ASTSelectQuery example_clauses (Some (ASTIdentifier ''t''))])),
        storage := None,
        query_analyzer :=
          example_analyzer\<lparr>getRequiredSourceColumns := [''a''], required_output := [''a'']\<rparr>,
        subquery_executeWithMultipleStreams := (\<lambda>u. build_nested (nested_interpreters u))\<rparr>"

text \<open>
  A SELECT over a subquery that is itself at depth 1, the deepest level allowed: its
  two columns exceed the cap of 1, and its subquery is too deep.
\<close>

definition deep_subquery_interpreter :: InterpreterSelectQuery where
  "deep_subquery_interpreter =
     example_interpreter
       \<lparr>query := ASTSelectQuery example_clauses
                   (Some (ASTSelectWithUnionQuery
                            [ASTSelectQuery example_clauses (Some (ASTIdentifier ''t''))])),
        settings := example_settings\<lparr>max_columns_to_read := 1, max_subquery_depth := 1\<rparr>,
        subquery_depth := 1,
        storage := None\<rparr>"

definition limit_interpreter :: InterpreterSelectQuery where
  "limit_interpreter =
     example_interpreter
       \<lparr>query := ASTSelectQuery
                   (example_clauses\<lparr>limit_length := Some 10, limit_offset := Some 5\<rparr>)
                   (Some (ASTIdentifier ''t'')),
        storage := Some (example_storage
                          \<lparr>read := (\<lambda>columns block_size n.
                                      (FetchColumns,
                                       if block_size = 15 \<and> n = 1 then [SourceStream 0]
                                       else [SourceStream 1, SourceStream 2]))\<rparr>)\<rparr>"

definition empty_pipeline :: Pipeline where
  "empty_pipeline = \<lparr>streams = [], streams_with_non_joined_data = []\<rparr>"

definition sum_with_totals :: ASTSelectQuery where
  "sum_with_totals =
     ASTSelectQuery
       (example_clauses\<lparr>group_by_with_totals := True, group_expression_list := Some [''k'']\<rparr>)
       (Some (ASTIdentifier ''t''))"

definition over_subquery_interpreter :: "bool \<Rightarrow> InterpreterSelectQuery" where
  "over_subquery_interpreter agg =
     example_interpreter
       \<lparr>query := ASTSelectQuery example_clauses (Some (ASTSelectWithUnionQuery [sum_with_totals])),
        storage := None,
        query_analyzer := example_analyzer\<lparr>hasAggregation := agg\<rparr>,
        subquery_executeWithMultipleStreams :=
          (\<lambda>u. Inr (map (\<lambda>n. SourceStream
                                  (if group_by_with_totals (clauses (query n)) then 1 else 0))
                      (nested_interpreters u)))\<rparr>"

definition grouping_interpreter :: "bool \<Rightarrow> InterpreterSelectQuery" where
  "grouping_interpreter with_totals =
     example_interpreter
       \<lparr>query := ASTSelectQuery
                   (example_clauses\<lparr>group_by_with_totals := with_totals,
                                    group_expression_list := Some [''k'']\<rparr>)
                   (Some (ASTIdentifier ''t'')),
        query_analyzer :=
          example_analyzer
            \<lparr>hasAggregation := True,
             getAggregateInfo := ([''k''], [\<lparr>argument_names = [''v''], arguments = []\<rparr>])\<rparr>\<rparr>"

section \<open>Verified properties\<close>

subsection \<open>Stage analysis\<close>

text \<open>
  Claim C1.  For every pair of processing stages, \<open>analyzeExpressions\<close> sets
  \<open>first_stage\<close> exactly when from_stage < WithMergeableState and
  to_stage \<ge> WithMergeableState, and \<open>second_stage\<close> exactly when
  from_stage \<le> WithMergeableState and to_stage > WithMergeableState.
\<close>

theorem analyzeExpressions_stages:
  "first_stage (analyzeExpressions i from_stage) =
     (stage_rank from_stage < stage_rank WithMergeableState
      \<and> stage_rank WithMergeableState \<le> stage_rank (to_stage i))
   \<and> second_stage (analyzeExpressions i from_stage) =
     (stage_rank from_stage \<le> stage_rank WithMergeableState
      \<and> stage_rank WithMergeableState < stage_rank (to_stage i))"
  by (simp add: analyzeExpressions_def Let_def stage_lt_def stage_le_def)

text \<open>
  With target stage Complete: reading from FetchColumns needs both stages, reading
  mergeable state only the second.
\<close>

theorem analyzeExpressions_stages_witness:
  "first_stage (analyzeExpressions example_interpreter FetchColumns)
   \<and> second_stage (analyzeExpressions example_interpreter FetchColumns)
   \<and> \<not> first_stage (analyzeExpressions example_interpreter WithMergeableState)
   \<and> second_stage (analyzeExpressions example_interpreter WithMergeableState)"
  using analyzeExpressions_stages [of example_interpreter FetchColumns]
        analyzeExpressions_stages [of example_interpreter WithMergeableState]
  by (simp add: example_interpreter_def)

subsection \<open>Union\<close>

text \<open>
  Claim C5.  \<open>executeUnion\<close> splits on the total number of chains (main streams plus
  the non-matched-row side channel): with no chain it changes nothing; with exactly one
  chain it changes nothing, except that a single non-matched-row chain is moved into the
  main collection; two or more chains are replaced by one union operator over both
  collections; and on a non-empty pipeline exactly one chain remains afterwards, the
  side channel being empty.
\<close>

theorem executeUnion_cases:
  "(length (streams p) + length (streams_with_non_joined_data p) = 0
      \<longrightarrow> executeUnion i p = p)
 \<and> (length (streams p) = 1 \<and> streams_with_non_joined_data p = []
      \<longrightarrow> executeUnion i p = p)
 \<and> (streams p = [] \<and> length (streams_with_non_joined_data p) = 1
      \<longrightarrow> executeUnion i p =
            p\<lparr>streams := streams_with_non_joined_data p,
              streams_with_non_joined_data := []\<rparr>)
 \<and> (length (streams p) + length (streams_with_non_joined_data p) \<ge> 2
      \<longrightarrow> executeUnion i p =
            p\<lparr>streams := [UnionBlockInputStream (streams p)
                             (streams_with_non_joined_data p) (max_streams i)],
              streams_with_non_joined_data := []\<rparr>)
 \<and> (length (streams p) + length (streams_with_non_joined_data p) > 0
      \<longrightarrow> length (streams (executeUnion i p)) = 1
          \<and> streams_with_non_joined_data (executeUnion i p) = [])"
  apply (cases "streams p"; cases "streams_with_non_joined_data p")
  apply (auto simp: executeUnion_def Let_def)
  done

theorem executeUnion_cases_witness:
  "executeUnion example_interpreter example_pipeline =
     \<lparr>streams = [UnionBlockInputStream [SourceStream 0, SourceStream 1] [] 4],
      streams_with_non_joined_data = []\<rparr>
   \<and> executeUnion example_interpreter
        \<lparr>streams = [], streams_with_non_joined_data = [SourceStream 3]\<rparr>
      = \<lparr>streams = [SourceStream 3], streams_with_non_joined_data = []\<rparr>"
  using executeUnion_cases [of example_pipeline example_interpreter]
        executeUnion_cases
          [of "\<lparr>streams = [], streams_with_non_joined_data = [SourceStream 3]\<rparr>"
              example_interpreter]
  by (simp add: example_pipeline_def example_interpreter_def)

subsection \<open>Distinct\<close>

lemma distinct_hint_map:
  "map (\<lambda>x. distinct_limit_hint
               (if g x then DistinctSortedBlockInputStream x l n c
                else DistinctBlockInputStream x l n c)) xs
   = replicate (length xs) (Some n)"
  by (induction xs) simp_all

text \<open>
  Claim C3 as stated fails.  For SELECT DISTINCT ... ORDER BY v LIMIT 5 the distinct
  pass that precedes ORDER BY is built with bound 0 (unbounded), not 5, and the pass
  that does not precede it is built with bound 5, not unbounded.  The same holds where
  the second-stage build of the query, with aggregation, reaches its DISTINCT step
  before ORDER BY: the operator is built with bound 0.
\<close>

theorem executeDistinct_bound_counterexample:
  "map distinct_limit_hint
     (streams (executeDistinct distinct_order_limit_interpreter example_pipeline True [''k'']))
     = [Some 0, Some 0]
   \<and> map distinct_limit_hint
     (streams (executeDistinct distinct_order_limit_interpreter example_pipeline False [''k'']))
     = [Some 5, Some 5]
   \<and> order_expression_list (clauses (query distinct_order_limit_interpreter)) \<noteq> None
   \<and> getLimitLengthAndOffset (query distinct_order_limit_interpreter) = (5, 0)
   \<and> (case second_stage_aggregate distinct_group_interpreter
               (analyzeExpressions distinct_group_interpreter FetchColumns) False True
               \<lparr>streams = [SourceStream 0], streams_with_non_joined_data = []\<rparr> of
         Inl e \<Rightarrow> []
       | Inr x \<Rightarrow> map distinct_limit_hint (streams (snd x))) = [Some 0]"
proof -
  have passes:
    "map distinct_limit_hint
       (streams (executeDistinct distinct_order_limit_interpreter example_pipeline True [''k'']))
       = [Some 0, Some 0]
     \<and> map distinct_limit_hint
       (streams (executeDistinct distinct_order_limit_interpreter example_pipeline False [''k'']))
       = [Some 5, Some 5]
     \<and> order_expression_list (clauses (query distinct_order_limit_interpreter)) \<noteq> None
     \<and> getLimitLengthAndOffset (query distinct_order_limit_interpreter) = (5, 0)"
    by (simp add: executeDistinct_def transform_def Let_def
          distinct_order_limit_interpreter_def example_interpreter_def example_clauses_def
          example_pipeline_def getLimitLengthAndOffset_def)
  have second:
    "(case second_stage_aggregate distinct_group_interpreter
               (analyzeExpressions distinct_group_interpreter FetchColumns) False True
               \<lparr>streams = [SourceStream 0], streams_with_non_joined_data = []\<rparr> of
         Inl e \<Rightarrow> []
       | Inr x \<Rightarrow> map distinct_limit_hint (streams (snd x))) = [Some 0]"
    by (simp add: second_stage_aggregate_def analyzeExpressions_def executeDistinct_def
          executeExpression_def transform_def bind_result_def Let_def
          distinct_group_interpreter_def distinct_order_limit_interpreter_def
          example_interpreter_def example_clauses_def example_analyzer_def
          getLimitLengthAndOffset_def stage_lt_def stage_le_def appendJoin_def
          appendWhere_def appendHaving_def appendOrderBy_def appendLimitBy_def actions_def)
  from passes second show ?thesis by simp
qed

text \<open>
  Claim C3, amended.  For a query with DISTINCT, every chain gets a distinct operator
  whose max-output-rows bound is limit_length + limit_offset when no ORDER BY is
  executed after the pass (the query has no ORDER BY, or the pass is not the one before
  ORDER BY), and 0 (unbounded) when the pass precedes an ORDER BY.  Without DISTINCT the
  pipeline is unchanged.
\<close>

theorem executeDistinct_bound:
  "(distinct_q (clauses (query i)) \<longrightarrow>
      map distinct_limit_hint (streams (executeDistinct i p before_order columns))
      = replicate (length (streams p))
          (Some (if order_expression_list (clauses (query i)) = None \<or> \<not> before_order
                 then fst (getLimitLengthAndOffset (query i))
                      + snd (getLimitLengthAndOffset (query i))
                 else 0))
    \<and> map distinct_limit_hint
        (streams_with_non_joined_data (executeDistinct i p before_order columns))
      = replicate (length (streams_with_non_joined_data p))
          (Some (if order_expression_list (clauses (query i)) = None \<or> \<not> before_order
                 then fst (getLimitLengthAndOffset (query i))
                      + snd (getLimitLengthAndOffset (query i))
                 else 0)))
   \<and> (\<not> distinct_q (clauses (query i)) \<longrightarrow> executeDistinct i p before_order columns = p)"
  by (simp add: executeDistinct_def transform_def Let_def split_beta comp_def
        distinct_hint_map)

theorem executeDistinct_bound_witness:
  "distinct_q (clauses (query distinct_order_limit_interpreter))
   \<and> map distinct_limit_hint
       (streams (executeDistinct distinct_order_limit_interpreter example_pipeline False []))
     = [Some 5, Some 5]
   \<and> \<not> distinct_q (clauses (query example_interpreter))
   \<and> executeDistinct example_interpreter example_pipeline True [] = example_pipeline"
  using executeDistinct_bound [of distinct_order_limit_interpreter example_pipeline False "[]"]
        executeDistinct_bound [of example_interpreter example_pipeline True "[]"]
  by (simp add: distinct_order_limit_interpreter_def example_interpreter_def
        example_clauses_def example_pipeline_def getLimitLengthAndOffset_def)

subsection \<open>Limit\<close>

lemma hasWithTotals_eq:
  "hasWithTotalsInAnySubqueryInFromClause q
     = (group_by_with_totals (clauses q) \<or> from_clause_has_with_totals q)"
proof (induction q rule: hasWithTotalsInAnySubqueryInFromClause.induct)
  case (1 c query_table)
  show ?case
  proof (cases "group_by_with_totals c")
    case True
    then show ?thesis by simp
  next
    case no_totals: False
    show ?thesis
    proof (cases query_table)
      case None
      then show ?thesis using no_totals by simp
    next
      case (Some t)
      show ?thesis
      proof (cases t)
        case (ASTSelectWithUnionQuery selects)
        have "list_ex hasWithTotalsInAnySubqueryInFromClause selects
              = list_ex (\<lambda>s. group_by_with_totals (clauses s)
                              \<or> from_clause_has_with_totals s) selects"
          unfolding list_ex_iff
          using "1.IH" [OF no_totals Some ASTSelectWithUnionQuery] by blast
        then show ?thesis using Some ASTSelectWithUnionQuery no_totals by simp
      qed (simp_all add: Some no_totals)
    qed
  qed
qed

text \<open>
  Claim C7 as stated fails.  The query SELECT ... FROM (SELECT ... GROUP BY k WITH
  TOTALS ORDER BY v) LIMIT 1 has no WITH TOTALS of its own, and the only SELECT in its
  FROM clause that has WITH TOTALS also has an ORDER BY; the limit operators are built
  with the read-till-end flag set all the same.
\<close>

theorem always_read_till_end_counterexample:
  "always_read_till_end limit_over_totals_query
   \<and> \<not> claimed_always_read_till_end limit_over_totals_query
   \<and> map limit_read_till_end
       (streams (executeLimit (example_interpreter\<lparr>query := limit_over_totals_query\<rparr>)
                   example_pipeline))
     = [Some True, Some True]"
  by (simp add: always_read_till_end_def claimed_always_read_till_end_def
        limit_over_totals_query_def totals_order_subquery_def example_clauses_def
        executeLimit_def transform_def example_pipeline_def example_interpreter_def
        getLimitLengthAndOffset_def)

text \<open>
  Claim C7, amended.  \<open>executeLimit\<close> sets the read-till-end flag of the limit
  operators if and only if either the query itself has WITH TOTALS and no ORDER BY, or
  the query itself has no WITH TOTALS and some SELECT in the subquery tree of its FROM
  clause has WITH TOTALS (whether or not that SELECT has an ORDER BY).  With a LIMIT
  every chain gets a limit operator carrying that flag; without a LIMIT the pipeline is
  unchanged.
\<close>

theorem executeLimit_read_till_end:
  "always_read_till_end (query i) =
     ((group_by_with_totals (clauses (query i))
       \<and> order_expression_list (clauses (query i)) = None)
      \<or> (\<not> group_by_with_totals (clauses (query i))
          \<and> from_clause_has_with_totals (query i)))
   \<and> (limit_length (clauses (query i)) \<noteq> None \<longrightarrow>
        map limit_read_till_end (streams (executeLimit i p))
          = replicate (length (streams p)) (Some (always_read_till_end (query i)))
        \<and> map limit_read_till_end (streams_with_non_joined_data (executeLimit i p))
          = replicate (length (streams_with_non_joined_data p))
              (Some (always_read_till_end (query i))))
   \<and> (limit_length (clauses (query i)) = None \<longrightarrow> executeLimit i p = p)"
proof -
  have flag: "always_read_till_end (query i) =
     ((group_by_with_totals (clauses (query i))
       \<and> order_expression_list (clauses (query i)) = None)
      \<or> (\<not> group_by_with_totals (clauses (query i))
          \<and> from_clause_has_with_totals (query i)))"
    by (auto simp add: always_read_till_end_def hasWithTotals_eq)
  have attach: "limit_length (clauses (query i)) \<noteq> None \<longrightarrow>
        map limit_read_till_end (streams (executeLimit i p))
          = replicate (length (streams p)) (Some (always_read_till_end (query i)))
        \<and> map limit_read_till_end (streams_with_non_joined_data (executeLimit i p))
          = replicate (length (streams_with_non_joined_data p))
              (Some (always_read_till_end (query i)))"
    by (simp add: executeLimit_def transform_def split_beta comp_def map_replicate_const)
  have none: "limit_length (clauses (query i)) = None \<longrightarrow> executeLimit i p = p"
    by (simp add: executeLimit_def split_beta)
  from flag attach none show ?thesis by blast
qed

theorem executeLimit_read_till_end_witness:
  "limit_length (clauses limit_over_totals_query) \<noteq> None
   \<and> from_clause_has_with_totals limit_over_totals_query
   \<and> map limit_read_till_end
       (streams (executeLimit (example_interpreter\<lparr>query := limit_over_totals_query\<rparr>)
                   example_pipeline))
     = [Some True, Some True]
   \<and> limit_length (clauses (query example_interpreter)) = None
   \<and> executeLimit example_interpreter example_pipeline = example_pipeline"
  using executeLimit_read_till_end
          [of "example_interpreter\<lparr>query := limit_over_totals_query\<rparr>" example_pipeline]
        executeLimit_read_till_end [of example_interpreter example_pipeline]
  by (simp add: limit_over_totals_query_def totals_order_subquery_def example_clauses_def
        example_pipeline_def example_interpreter_def)

subsection \<open>Sorting\<close>

text \<open>
  Claim C6.  The row bound used for sorting is limit_length + limit_offset when the
  query has a final LIMIT and neither DISTINCT nor LIMIT BY, and 0 (unbounded)
  otherwise.  One invocation of \<open>executeOrder\<close> on a pipeline that holds a stream
  wraps every chain in a partial-sort operator and puts one merge-sort operator on the
  collapsed chain, and the same bound and the same sort description are used for all
  the partial-sort operators and for the merge operator.
\<close>

theorem executeOrder_sort_bound:
  "getLimitForSorting (query i) =
     (if limit_length (clauses (query i)) \<noteq> None \<and> \<not> distinct_q (clauses (query i))
         \<and> limit_by_expression_list (clauses (query i)) = None
      then fst (getLimitLengthAndOffset (query i)) + snd (getLimitLengthAndOffset (query i))
      else 0)
   \<and> (getSortDescription (query i) = Some d \<and> \<not> no_streams p \<longrightarrow>
        (let limit = getLimitForSorting (query i);
             partial = (\<lambda>s. SetLimits (PartialSortingBlockInputStream s d limit)
                               (sort_limits (settings i)) False)
         in \<exists>u. executeOrder i p =
                  Inr \<lparr>streams = [MergeSortingBlockInputStream u d (max_block_size (settings i))
                                    limit (max_bytes_before_external_sort (settings i))],
                       streams_with_non_joined_data = []\<rparr>
               \<and> (u = UnionBlockInputStream (map partial (streams p))
                        (map partial (streams_with_non_joined_data p)) (max_streams i)
                   \<or> (\<exists>s. streams p @ streams_with_non_joined_data p = [s] \<and> u = partial s))))"
proof -
  have bound: "getLimitForSorting (query i) =
     (if limit_length (clauses (query i)) \<noteq> None \<and> \<not> distinct_q (clauses (query i))
         \<and> limit_by_expression_list (clauses (query i)) = None
      then fst (getLimitLengthAndOffset (query i)) + snd (getLimitLengthAndOffset (query i))
      else 0)"
    by (auto simp: getLimitForSorting_def getLimitLengthAndOffset_def split: option.splits)
  have order: "getSortDescription (query i) = Some d \<and> \<not> no_streams p \<longrightarrow>
        (let limit = getLimitForSorting (query i);
             partial = (\<lambda>s. SetLimits (PartialSortingBlockInputStream s d limit)
                               (sort_limits (settings i)) False)
         in \<exists>u. executeOrder i p =
                  Inr \<lparr>streams = [MergeSortingBlockInputStream u d (max_block_size (settings i))
                                    limit (max_bytes_before_external_sort (settings i))],
                       streams_with_non_joined_data = []\<rparr>
               \<and> (u = UnionBlockInputStream (map partial (streams p))
                        (map partial (streams_with_non_joined_data p)) (max_streams i)
                   \<or> (\<exists>s. streams p @ streams_with_non_joined_data p = [s] \<and> u = partial s)))"
    apply (cases p)
    subgoal for ss ns
      apply (cases ss; cases ns)
      apply (auto simp: executeOrder_def executeUnion_def Let_def no_streams_def transform_def
               firstStream_def set_firstStream_def)
      done
    done
  from bound order show ?thesis by blast
qed

theorem executeOrder_sort_bound_witness:
  "getLimitForSorting (query order_limit_interpreter) = 3
   \<and> executeOrder order_limit_interpreter example_pipeline =
       Inr \<lparr>streams =
              [MergeSortingBlockInputStream
                 (UnionBlockInputStream
                    [SetLimits (PartialSortingBlockInputStream (SourceStream 0)
                        [\<lparr>sort_column_name = ''v'', sort_direction = -1,
                          sort_nulls_direction = 1, collator = None\<rparr>] 3)
                       \<lparr>max_rows = 0, max_bytes = 0, overflow_mode = THROW\<rparr> False,
                     SetLimits (PartialSortingBlockInputStream (SourceStream 1)
                        [\<lparr>sort_column_name = ''v'', sort_direction = -1,
                          sort_nulls_direction = 1, collator = None\<rparr>] 3)
                       \<lparr>max_rows = 0, max_bytes = 0, overflow_mode = THROW\<rparr> False]
                    [] 4)
                 [\<lparr>sort_column_name = ''v'', sort_direction = -1,
                   sort_nulls_direction = 1, collator = None\<rparr>] 65536 3 0],
            streams_with_non_joined_data = []\<rparr>"
  using executeOrder_sort_bound [of order_limit_interpreter
                    "[\<lparr>sort_column_name = ''v'', sort_direction = -1,
                       sort_nulls_direction = 1, collator = None\<rparr>]" example_pipeline]
  by (simp add: order_limit_interpreter_def example_interpreter_def example_clauses_def
        example_pipeline_def example_settings_def example_order_by_def
        getLimitLengthAndOffset_def getSortDescription_def no_streams_def sort_limits_def
        Let_def)

subsection \<open>Aggregation\<close>

text \<open>
  Claim C4 as stated fails.  With both two-level thresholds configured as 0 and two
  main streams, the thresholds passed to the aggregator are zero although more than one
  stream is held.  And with the thresholds configured non-zero, one main stream and one
  stream in the non-matched-row side channel, the pipeline holds two chains and the
  thresholds passed are zero as well: only the main collection is counted.
\<close>

theorem executeAggregation_two_level_counterexample:
  "map_option (map aggregator_thresholds)
     (result_streams (executeAggregation zero_threshold_interpreter example_pipeline
                        (actions AggregationStep False False) False False))
     = Some [Some (0, 0)]
   \<and> length (streams example_pipeline) > 1
   \<and> map_option (map aggregator_thresholds)
     (result_streams (executeAggregation example_interpreter
                        \<lparr>streams = [SourceStream 0],
                         streams_with_non_joined_data = [SourceStream 1]\<rparr>
                        (actions AggregationStep False False) False False))
     = Some [Some (0, 0)]
   \<and> hasMoreThanOneStream
        \<lparr>streams = [SourceStream 0], streams_with_non_joined_data = [SourceStream 1]\<rparr>
   \<and> group_by_two_level_threshold (settings example_interpreter) \<noteq> 0
   \<and> group_by_two_level_threshold_bytes (settings example_interpreter) \<noteq> 0"
  by (simp add: executeAggregation_def Let_def transform_def firstStream_def result_streams_def
       zero_threshold_interpreter_def example_interpreter_def example_pipeline_def
       example_analyzer_def example_settings_def hasMoreThanOneStream_def)

text \<open>
  Claim C4, amended.  Whenever \<open>executeAggregation\<close> returns, the pipeline holds one
  aggregating operator, and the two-level thresholds passed to its aggregator are the
  configured \<open>group_by_two_level_threshold\<close> and \<open>group_by_two_level_threshold_bytes\<close>
  when the main stream collection holds more than one stream or
  \<open>max_bytes_before_external_group_by\<close> is non-zero; otherwise both thresholds passed
  are zero.
\<close>

theorem executeAggregation_two_level:
  "executeAggregation i p e ov fin = Inr p' \<longrightarrow>
     map aggregator_thresholds (streams p') =
       [Some (if length (streams p) > 1 \<or> max_bytes_before_external_group_by (settings i) \<noteq> 0
              then (group_by_two_level_threshold (settings i),
                    group_by_two_level_threshold_bytes (settings i))
              else (0, 0))]
     \<and> streams_with_non_joined_data p' = []"
  by (auto simp: executeAggregation_def Let_def transform_def firstStream_def
        split: prod.splits option.splits list.splits if_splits)

theorem executeAggregation_two_level_witness:
  "map_option (map aggregator_thresholds)
     (result_streams (executeAggregation example_interpreter example_pipeline
                        (actions AggregationStep False False) False False))
     = Some [Some (100000, 100000000)]
   \<and> map_option (map aggregator_thresholds)
     (result_streams (executeAggregation example_interpreter
                        \<lparr>streams = [SourceStream 0], streams_with_non_joined_data = [SourceStream 1]\<rparr>
                        (actions AggregationStep False False) False False))
     = Some [Some (0, 0)]"
  using executeAggregation_two_level [of example_interpreter example_pipeline "actions AggregationStep False False" False False]
        executeAggregation_two_level [of example_interpreter "\<lparr>streams = [SourceStream 0], streams_with_non_joined_data = [SourceStream 1]\<rparr>" "actions AggregationStep False False" False False]
  by (simp add: executeAggregation_def Let_def transform_def firstStream_def result_streams_def
       example_interpreter_def example_pipeline_def
       example_analyzer_def example_settings_def)

subsection \<open>Fetching the columns\<close>

lemma error_code_simps [simp]:
  "error_code (Inl (e, p)) = Some e" "error_code (Inr x) = None"
  by (simp_all add: error_code_def)

lemma fetch_from_storage_code:
  "fetch_from_storage i st r cols b d p \<noteq> Inl (TOO_MANY_COLUMNS, p')"
  by (auto simp: fetch_from_storage_def Let_def split_beta split: if_splits)

text \<open>
  Claim C9 as stated fails, in both directions.  For SELECT a FROM (SELECT x + y + z AS a
  FROM t) with a cap of 2 columns the outer call needs one column, yet it exits with
  TooManyColumns: the nested build of the subquery runs the same function on the nested
  SELECT, which needs three columns, and the exception comes out of the outer call.
  And for a SELECT at depth 1 over a subquery, with a depth cap of 1 and two columns
  against a cap of 1, the call is not a dry run and exceeds the cap, yet it exits with
  TooDeepSubqueries: the interpreter of the subquery is constructed before the check.
\<close>

theorem executeFetchColumns_too_many_columns_counterexample:
  "error_code (executeFetchColumns sum_over_subquery_interpreter empty_pipeline False)
     = Some TOO_MANY_COLUMNS
   \<and> length (snd (alias_actions_and_columns sum_over_subquery_interpreter)) = 1
   \<and> unat (max_columns_to_read (settings sum_over_subquery_interpreter)) = 2
   \<and> error_code (executeFetchColumns deep_subquery_interpreter empty_pipeline False)
     = Some TOO_DEEP_SUBQUERIES
   \<and> length (snd (alias_actions_and_columns deep_subquery_interpreter)) = 2
   \<and> unat (max_columns_to_read (settings deep_subquery_interpreter)) = 1"
proof -
  have nested:
    "error_code (executeFetchColumns sum_over_subquery_interpreter empty_pipeline False)
       = Some TOO_MANY_COLUMNS"
    by code_simp
  have deep:
    "error_code (executeFetchColumns deep_subquery_interpreter empty_pipeline False)
       = Some TOO_DEEP_SUBQUERIES"
    by code_simp
  have counts:
    "length (snd (alias_actions_and_columns sum_over_subquery_interpreter)) = 1
     \<and> unat (max_columns_to_read (settings sum_over_subquery_interpreter)) = 2
     \<and> length (snd (alias_actions_and_columns deep_subquery_interpreter)) = 2
     \<and> unat (max_columns_to_read (settings deep_subquery_interpreter)) = 1"
    by (simp add: alias_actions_and_columns_def sum_over_subquery_interpreter_def
          deep_subquery_interpreter_def example_interpreter_def example_analyzer_def
          example_settings_def)
  from nested deep counts show ?thesis by simp
qed

text \<open>
  Claim C9, amended.  \<open>executeFetchColumns\<close> first constructs the interpreter of a
  subquery in FROM and lets the exception of that construction out.  Otherwise its own
  check throws TooManyColumns if and only if it is not a dry run, the cap
  \<open>max_columns_to_read\<close> is non-zero and the number of required source columns exceeds
  the cap; in a dry run its own check never throws, whatever the number of columns.
  When its own check does not throw, the function exits with TooManyColumns exactly when
  it has no prepared input and the nested build of the subquery in FROM lets that
  exception out.
\<close>

theorem executeFetchColumns_too_many_columns:
  "(subquery_construction_error i (snd (alias_actions_and_columns i)) = Some e
      \<longrightarrow> executeFetchColumns i p dry_run = Inl (e, p))
   \<and> (subquery_construction_error i (snd (alias_actions_and_columns i)) = None
       \<and> (\<not> dry_run \<and> max_columns_to_read (settings i) \<noteq> 0
            \<and> unat (max_columns_to_read (settings i))
                < length (snd (alias_actions_and_columns i)))
      \<longrightarrow> executeFetchColumns i p dry_run = Inl (TOO_MANY_COLUMNS, p))
   \<and> (subquery_construction_error i (snd (alias_actions_and_columns i)) = None
       \<and> \<not> (\<not> dry_run \<and> max_columns_to_read (settings i) \<noteq> 0
              \<and> unat (max_columns_to_read (settings i))
                  < length (snd (alias_actions_and_columns i)))
      \<longrightarrow> (error_code (executeFetchColumns i p dry_run) = Some TOO_MANY_COLUMNS)
           = (streams p = []
              \<and> (\<exists>u. interpreter_subquery i (snd (alias_actions_and_columns i)) = Some u
                     \<and> nested_build_error i u dry_run = Some TOO_MANY_COLUMNS)))"
proof -
  let ?cols = "snd (alias_actions_and_columns i)"
  let ?own = "\<not> dry_run \<and> max_columns_to_read (settings i) \<noteq> 0
              \<and> unat (max_columns_to_read (settings i)) < length ?cols"
  have construction: "subquery_construction_error i ?cols = Some e
      \<longrightarrow> executeFetchColumns i p dry_run = Inl (e, p)"
    by (simp add: executeFetchColumns_def split_beta)
  have own: "subquery_construction_error i ?cols = None \<and> ?own
      \<longrightarrow> executeFetchColumns i p dry_run = Inl (TOO_MANY_COLUMNS, p)"
    by (simp add: executeFetchColumns_def split_beta)
  have nested: "(error_code (executeFetchColumns i p dry_run) = Some TOO_MANY_COLUMNS)
           = (streams p = []
              \<and> (\<exists>u. interpreter_subquery i ?cols = Some u
                     \<and> nested_build_error i u dry_run = Some TOO_MANY_COLUMNS))"
    if c: "subquery_construction_error i ?cols = None" and n: "\<not> ?own"
  proof (cases "streams p = []")
    case False
    then show ?thesis
      using c n
      by (auto simp: executeFetchColumns_def Let_def split_beta bind_result_def
            split: option.splits)
  next
    case True
    show ?thesis
    proof (cases "interpreter_subquery i ?cols")
      case None
      then show ?thesis
        using c n True
        by (auto simp: executeFetchColumns_def Let_def split_beta bind_result_def
              fetch_from_storage_code split: option.splits sum.splits)
    next
      case (Some u)
      then show ?thesis
        using c n True
        by (cases dry_run)
           (auto simp: executeFetchColumns_def Let_def split_beta bind_result_def
              nested_build_error_def split: option.splits sum.splits)
    qed
  qed
  from construction own nested show ?thesis by (intro conjI impI) auto
qed

theorem executeFetchColumns_too_many_columns_witness:
  "error_code (executeFetchColumns
                 (example_interpreter\<lparr>settings := example_settings\<lparr>max_columns_to_read := 1\<rparr>\<rparr>)
                 empty_pipeline False) = Some TOO_MANY_COLUMNS
   \<and> error_code (executeFetchColumns
                 (example_interpreter\<lparr>settings := example_settings\<lparr>max_columns_to_read := 1\<rparr>\<rparr>)
                 empty_pipeline True) \<noteq> Some TOO_MANY_COLUMNS
   \<and> error_code (executeFetchColumns example_interpreter empty_pipeline False)
       \<noteq> Some TOO_MANY_COLUMNS
   \<and> executeFetchColumns deep_subquery_interpreter empty_pipeline False
       = Inl (TOO_DEEP_SUBQUERIES, empty_pipeline)
   \<and> nested_build_error sum_over_subquery_interpreter
        \<lparr>nested_interpreters =
           [\<lparr>query = ASTSelectQuery example_clauses (Some (ASTIdentifier ''t'')),
             settings = example_settings, required_result_column_names = [''a''],
             to_stage = Complete, subquery_depth = 1\<rparr>]\<rparr> False = Some TOO_MANY_COLUMNS"
proof -
  have nb: "nested_build_error sum_over_subquery_interpreter
        \<lparr>nested_interpreters =
           [\<lparr>query = ASTSelectQuery example_clauses (Some (ASTIdentifier ''t'')),
             settings = example_settings, required_result_column_names = [''a''],
             to_stage = Complete, subquery_depth = 1\<rparr>]\<rparr> False = Some TOO_MANY_COLUMNS"
    by code_simp
  show ?thesis
    using executeFetchColumns_too_many_columns
            [of "example_interpreter\<lparr>settings := example_settings\<lparr>max_columns_to_read := 1\<rparr>\<rparr>"
                TOO_DEEP_SUBQUERIES empty_pipeline False]
          executeFetchColumns_too_many_columns
            [of "example_interpreter\<lparr>settings := example_settings\<lparr>max_columns_to_read := 1\<rparr>\<rparr>"
                TOO_DEEP_SUBQUERIES empty_pipeline True]
          executeFetchColumns_too_many_columns
            [of example_interpreter TOO_DEEP_SUBQUERIES empty_pipeline False]
          executeFetchColumns_too_many_columns
            [of deep_subquery_interpreter TOO_DEEP_SUBQUERIES empty_pipeline False]
          nb
    by (simp add: example_interpreter_def example_settings_def example_analyzer_def
          example_storage_def example_clauses_def deep_subquery_interpreter_def
          empty_pipeline_def alias_actions_and_columns_def subquery_construction_error_def
          interpreter_subquery_def too_deep_subqueries_def nested_build_error_def Let_def)
qed

text \<open>
  Claim C8.  For a query with no DISTINCT, PREWHERE, WHERE, GROUP BY, HAVING, ORDER BY,
  LIMIT BY and no aggregation, but with a LIMIT whose limit_length + limit_offset is
  smaller than \<open>max_block_size\<close>, the batch-size hint becomes limit_length +
  limit_offset and the stream count becomes 1, and a table read receives exactly these
  two hints.  When one of those clauses is present, the hint stays \<open>max_block_size\<close> and
  the stream count stays what it was.
\<close>

theorem executeFetchColumns_limit_optimization:
  "(\<not> distinct_q (clauses (query i))
    \<and> prewhere_expression (clauses (query i)) = None
    \<and> where_expression (clauses (query i)) = None
    \<and> group_expression_list (clauses (query i)) = None
    \<and> having_expression (clauses (query i)) = None
    \<and> order_expression_list (clauses (query i)) = None
    \<and> limit_by_expression_list (clauses (query i)) = None
    \<and> \<not> hasAggregation (query_analyzer i)
    \<and> limit_length (clauses (query i)) \<noteq> None
    \<and> fst (getLimitLengthAndOffset (query i)) + snd (getLimitLengthAndOffset (query i))
        < max_block_size (settings i)
    \<longrightarrow>
      limit_optimization i =
        (fst (getLimitLengthAndOffset (query i)) + snd (getLimitLengthAndOffset (query i)),
         i\<lparr>max_streams := 1\<rparr>)
      \<and> (storage i = Some st
          \<and> (\<forall>selects. table (query i) \<noteq> Some (ASTSelectWithUnionQuery selects))
          \<and> streams p = []
          \<and> \<not> (max_columns_to_read (settings i) \<noteq> 0
                \<and> unat (max_columns_to_read (settings i))
                    < length (snd (alias_actions_and_columns i)))
          \<and> regions (settings i) = []
          \<and> partition_expression_list (clauses (query i)) = None
          \<longrightarrow> (\<exists>p'. executeFetchColumns i p False =
                  Inr (fst (read st (snd (alias_actions_and_columns i))
                              (fst (getLimitLengthAndOffset (query i))
                               + snd (getLimitLengthAndOffset (query i))) 1),
                       i\<lparr>max_streams := 1\<rparr>, p'))))
   \<and> (distinct_q (clauses (query i))
       \<or> prewhere_expression (clauses (query i)) \<noteq> None
       \<or> where_expression (clauses (query i)) \<noteq> None
       \<or> group_expression_list (clauses (query i)) \<noteq> None
       \<or> having_expression (clauses (query i)) \<noteq> None
       \<or> order_expression_list (clauses (query i)) \<noteq> None
       \<or> limit_by_expression_list (clauses (query i)) \<noteq> None
       \<or> hasAggregation (query_analyzer i)
       \<longrightarrow> limit_optimization i = (max_block_size (settings i), i))"
proof -
  let ?len = "fst (getLimitLengthAndOffset (query i))"
  let ?off = "snd (getLimitLengthAndOffset (query i))"
  let ?cols = "snd (alias_actions_and_columns i)"
  let ?cond = "\<not> distinct_q (clauses (query i))
    \<and> prewhere_expression (clauses (query i)) = None
    \<and> where_expression (clauses (query i)) = None
    \<and> group_expression_list (clauses (query i)) = None
    \<and> having_expression (clauses (query i)) = None
    \<and> order_expression_list (clauses (query i)) = None
    \<and> limit_by_expression_list (clauses (query i)) = None
    \<and> \<not> hasAggregation (query_analyzer i)
    \<and> limit_length (clauses (query i)) \<noteq> None
    \<and> ?len + ?off < max_block_size (settings i)"
  have opt: "?cond \<Longrightarrow> limit_optimization j = (?len + ?off, j\<lparr>max_streams := 1\<rparr>)"
    if "query j = query i" "settings j = settings i" "query_analyzer j = query_analyzer i"
    for j :: "'a InterpreterSelectQuery_scheme"
    using that by (simp add: limit_optimization_def split_beta)
  have a: "?cond \<longrightarrow> limit_optimization i = (?len + ?off, i\<lparr>max_streams := 1\<rparr>)"
    using opt [of i] by simp
  have b: "\<exists>p'. executeFetchColumns i p False =
                  Inr (fst (read st ?cols (?len + ?off) 1), i\<lparr>max_streams := 1\<rparr>, p')"
    if c: ?cond and st: "storage i = Some st"
      and tbl: "\<forall>selects. table (query i) \<noteq> Some (ASTSelectWithUnionQuery selects)"
      and emp: "streams p = []"
      and cap: "\<not> (max_columns_to_read (settings i) \<noteq> 0
                \<and> unat (max_columns_to_read (settings i)) < length ?cols)"
      and reg: "regions (settings i) = []"
      and part: "partition_expression_list (clauses (query i)) = None"
  proof -
    have sub: "interpreter_subquery i ?cols = None"
      using tbl by (auto simp: interpreter_subquery_def split: option.splits table_expression.splits)
    have con: "subquery_construction_error i ?cols = None"
      using tbl
      by (auto simp: subquery_construction_error_def
            split: option.splits table_expression.splits)
    have o1: "limit_optimization i = (?len + ?off, i\<lparr>max_streams := 1\<rparr>)"
      using a c by blast
    have o2: "limit_optimization (i\<lparr>max_streams := max_distributed_connections (settings i)\<rparr>)
              = (?len + ?off, i\<lparr>max_streams := 1\<rparr>)"
      using opt [of "i\<lparr>max_streams := max_distributed_connections (settings i)\<rparr>"] c by simp
    have f: "\<exists>p'. fetch_from_storage (i\<lparr>max_streams := 1\<rparr>) st r ?cols (?len + ?off) False p
              = Inr (fst (read st ?cols (?len + ?off) 1), i\<lparr>max_streams := 1\<rparr>, p')" for r
      using reg part by (simp add: fetch_from_storage_def Let_def split_beta)
    show ?thesis
      using st sub con emp cap o1 o2 f [of True] f [of False]
      by (auto simp: executeFetchColumns_def Let_def split_beta bind_result_def
            split: option.splits)
  qed
  have d: "distinct_q (clauses (query i))
       \<or> prewhere_expression (clauses (query i)) \<noteq> None
       \<or> where_expression (clauses (query i)) \<noteq> None
       \<or> group_expression_list (clauses (query i)) \<noteq> None
       \<or> having_expression (clauses (query i)) \<noteq> None
       \<or> order_expression_list (clauses (query i)) \<noteq> None
       \<or> limit_by_expression_list (clauses (query i)) \<noteq> None
       \<or> hasAggregation (query_analyzer i)
       \<longrightarrow> limit_optimization i = (max_block_size (settings i), i)"
    by (auto simp: limit_optimization_def split_beta)
  from a b d show ?thesis by (intro conjI impI allI) auto
qed

theorem executeFetchColumns_limit_optimization_witness:
  "limit_optimization limit_interpreter = (15, limit_interpreter\<lparr>max_streams := 1\<rparr>)
   \<and> executeFetchColumns limit_interpreter empty_pipeline False =
       Inr (FetchColumns, limit_interpreter\<lparr>max_streams := 1\<rparr>,
            \<lparr>streams = [SetQuota (SetLimits (AddTableLock (SourceStream 0))
                            \<lparr>max_rows = 0, max_bytes = 0, overflow_mode = THROW\<rparr> True)],
             streams_with_non_joined_data = []\<rparr>)
   \<and> limit_optimization distinct_order_limit_interpreter
       = (65536, distinct_order_limit_interpreter)"
  using executeFetchColumns_limit_optimization [of limit_interpreter
              "example_storage
                 \<lparr>read := (\<lambda>columns block_size n.
                             (FetchColumns,
                              if block_size = 15 \<and> n = 1 then [SourceStream 0]
                              else [SourceStream 1, SourceStream 2]))\<rparr>"
              empty_pipeline]
        executeFetchColumns_limit_optimization [of distinct_order_limit_interpreter example_storage empty_pipeline]
  by (simp add: limit_interpreter_def distinct_order_limit_interpreter_def
        example_interpreter_def example_clauses_def
        example_settings_def example_analyzer_def example_storage_def empty_pipeline_def
        executeFetchColumns_def alias_actions_and_columns_def interpreter_subquery_def
        subquery_construction_error_def
        fetch_from_storage_def read_limits_def transform_def
        limit_optimization_def getLimitLengthAndOffset_def
        bind_result_def Let_def)

subsection \<open>The subquery in FROM and WITH TOTALS\<close>

lemma limit_optimization_to_stage:
  "to_stage (snd (limit_optimization i)) = to_stage i"
  by (simp add: limit_optimization_def Let_def split_beta)

lemma fetch_from_storage_to_stage:
  "fetch_from_storage i st r cols b d p = Inr (f, i1, p1) \<Longrightarrow> to_stage i1 = to_stage i"
  by (auto simp: fetch_from_storage_def Let_def split_beta split: if_splits)

lemma executeFetchColumns_to_stage:
  assumes "executeFetchColumns i p d = Inr (f, i1, p1)"
  shows "to_stage i1 = to_stage i"
  using assms limit_optimization_to_stage [of "i\<lparr>max_streams := max_distributed_connections (settings i)\<rparr>"]
    limit_optimization_to_stage [of i]
  by (auto simp: executeFetchColumns_def Let_def split_beta bind_result_def
        split: if_splits option.splits sum.splits dest!: fetch_from_storage_to_stage)

lemma tf_transform:
  "(\<And>s. totals_free s \<Longrightarrow> totals_free (f s)) \<Longrightarrow> pipeline_totals_free p
     \<Longrightarrow> pipeline_totals_free (transform f p)"
  by (auto simp: pipeline_totals_free_def transform_def list_all_iff)

lemma tf_executeUnion:
  "pipeline_totals_free p \<Longrightarrow> pipeline_totals_free (executeUnion i p)"
  apply (cases "streams p"; cases "streams_with_non_joined_data p")
  apply (auto simp: pipeline_totals_free_def executeUnion_def Let_def)
  done

lemma tf_firstStream:
  "pipeline_totals_free p \<Longrightarrow> firstStream p = Some s \<Longrightarrow> totals_free s"
  by (auto simp: pipeline_totals_free_def firstStream_def split: list.splits)

lemma tf_set_firstStream:
  "pipeline_totals_free p \<Longrightarrow> totals_free s \<Longrightarrow> pipeline_totals_free (set_firstStream s p)"
  by (cases "streams p") (auto simp: pipeline_totals_free_def set_firstStream_def)

lemma tf_executeDistinct:
  "pipeline_totals_free p \<Longrightarrow> pipeline_totals_free (executeDistinct i p b c)"
  by (auto simp: executeDistinct_def Let_def split_beta intro!: tf_transform)

lemma tf_executePreLimit:
  "pipeline_totals_free p \<Longrightarrow> pipeline_totals_free (executePreLimit i p)"
  by (auto simp: executePreLimit_def Let_def split_beta intro!: tf_transform)

lemma tf_executeLimit:
  "pipeline_totals_free p \<Longrightarrow> pipeline_totals_free (executeLimit i p)"
  by (auto simp: executeLimit_def Let_def split_beta intro!: tf_transform)

lemma tf_executeLimitBy:
  "pipeline_totals_free p \<Longrightarrow> pipeline_totals_free (executeLimitBy i p)"
  by (auto simp: executeLimitBy_def split: option.splits intro!: tf_transform)

lemma tf_executeExpression:
  "pipeline_totals_free p \<Longrightarrow> pipeline_totals_free (executeExpression p e)"
  by (auto simp: executeExpression_def intro!: tf_transform)

lemma tf_executeProjection:
  "pipeline_totals_free p \<Longrightarrow> pipeline_totals_free (executeProjection p e)"
  by (auto simp: executeProjection_def intro!: tf_transform)

lemma tf_executeExtremes:
  "pipeline_totals_free p \<Longrightarrow> pipeline_totals_free (executeExtremes i p)"
  by (auto simp: executeExtremes_def intro!: tf_transform)

lemma tf_executeWhere:
  "pipeline_totals_free p \<Longrightarrow> executeWhere i p e = Inr p' \<Longrightarrow> pipeline_totals_free p'"
  by (auto simp: executeWhere_def split: option.splits if_splits intro!: tf_transform)

lemma tf_executeHaving:
  "pipeline_totals_free p \<Longrightarrow> executeHaving i p e = Inr p' \<Longrightarrow> pipeline_totals_free p'"
  by (auto simp: executeHaving_def split: option.splits if_splits intro!: tf_transform)

lemma tf_executeOrder:
  assumes "pipeline_totals_free p" "executeOrder i p = Inr p'"
  shows "pipeline_totals_free p'"
proof -
  obtain d where d: "getSortDescription (query i) = Some d"
    using assms(2) by (auto simp: executeOrder_def split: option.splits)
  let ?p1 = "transform (\<lambda>stream. SetLimits
               (PartialSortingBlockInputStream stream d (getLimitForSorting (query i)))
               (sort_limits (settings i)) False) p"
  have t1: "pipeline_totals_free (executeUnion i ?p1)"
    using assms(1) by (intro tf_executeUnion tf_transform) auto
  show ?thesis
    using assms(2) d t1
    by (auto simp: executeOrder_def Let_def split: option.splits
          intro!: tf_set_firstStream dest: tf_firstStream)
qed

lemma tf_executeMergeSorted:
  assumes "pipeline_totals_free p" "executeMergeSorted i p = Inr p'"
  shows "pipeline_totals_free p'"
proof -
  have t1: "pipeline_totals_free (transform AsynchronousBlockInputStream p)"
    using assms(1) by (intro tf_transform) auto
  show ?thesis
    using assms t1
    by (auto simp: executeMergeSorted_def Let_def pipeline_totals_free_def
          split: option.splits if_splits)
qed

lemma tf_executeSubqueries:
  assumes "pipeline_totals_free p" "executeSubqueriesInSetsAndJoins i p ns = Inr p'"
  shows "pipeline_totals_free p'"
  using assms tf_executeUnion [OF assms(1), of i]
  by (auto simp: executeSubqueriesInSetsAndJoins_def Let_def split: option.splits
        intro!: tf_set_firstStream dest: tf_firstStream)

lemma tf_executeAggregation:
  assumes "pipeline_totals_free p" "executeAggregation i p e ov fin = Inr p'"
  shows "pipeline_totals_free p'"
proof -
  let ?p1 = "transform (\<lambda>stream. ExpressionBlockInputStream stream e) p"
  have t1: "pipeline_totals_free ?p1"
    using assms(1) by (intro tf_transform) auto
  then have l: "list_all totals_free (streams ?p1)"
    "list_all totals_free (streams_with_non_joined_data ?p1)"
    by (simp_all add: pipeline_totals_free_def)
  have tk: "list_all totals_free (take 1 (streams_with_non_joined_data ?p1))"
    using l(2) by (auto simp: list_all_iff dest: in_set_takeD)
  show ?thesis
    using assms(2) l tk
    by (auto simp: executeAggregation_def Let_def split_beta firstStream_def
          pipeline_totals_free_def
          split: option.splits if_splits list.splits prod.splits)
qed

lemma tf_executeMergeAggregated:
  assumes "pipeline_totals_free p" "executeMergeAggregated i p ov fin = Inr p'"
  shows "pipeline_totals_free p'"
  using assms tf_executeUnion [OF assms(1), of i]
  by (auto simp: executeMergeAggregated_def Let_def split_beta
        split: option.splits if_splits
        intro!: tf_set_firstStream dest: tf_firstStream)
     (auto simp: pipeline_totals_free_def)


lemma bind_result_Inr:
  "bind_result r f = Inr y \<longleftrightarrow> (\<exists>x. r = Inr x \<and> f x = Inr y)"
  by (cases r) (simp_all add: bind_result_def)

lemma tf_execute_join:
  assumes "pipeline_totals_free p" "execute_join i ex p = Inr p'"
  shows "pipeline_totals_free p'"
  using assms
  by (auto simp: execute_join_def bind_result_Inr pipeline_totals_free_def list_all_iff
        split: option.splits if_splits)

lemma tf_execute_first_stage:
  assumes "pipeline_totals_free p" "execute_first_stage i ex ov fin p = Inr p'"
  shows "pipeline_totals_free p'"
proof -
  from assms(2) obtain p1 p2 p3 where
    s1: "(if has_join ex then execute_join i ex p else Inr p) = Inr p1" and
    s2: "(if has_where ex then
          (case before_where ex of
             None \<Rightarrow> Inl (NULL_POINTER, p1)
           | Some bw \<Rightarrow> executeWhere i p1 bw)
        else Inr p1) = Inr p2" and
    s3: "(if need_aggregate ex then
          (case before_aggregation ex of
             None \<Rightarrow> Inl (NULL_POINTER, p2)
           | Some ba \<Rightarrow> executeAggregation i p2 ba ov fin)
        else
          Inr (executeDistinct i
                 (executeExpression p2 (before_order_and_select ex))
                 True (selected_columns ex))) = Inr p3" and
    s4: "(if \<not> second_stage ex \<and> \<not> need_aggregate ex \<and> \<not> has_having ex
     then
       bind_result
         (if has_order_by ex then executeOrder i p3 else Inr p3)
         (\<lambda>p4.
            (let p5 = (if has_order_by ex \<and> limit_length (clauses (query i)) \<noteq> None
                       then executeDistinct i p4 False (selected_columns ex)
                       else p4)
             in Inr (if limit_length (clauses (query i)) \<noteq> None
                     then executePreLimit i p5 else p5)))
     else Inr p3) = Inr p'"
    unfolding execute_first_stage_def bind_result_Inr by blast
  have t1: "pipeline_totals_free p1"
    using s1 assms(1) by (auto split: if_splits dest: tf_execute_join)
  have t2: "pipeline_totals_free p2"
    using s2 t1 by (auto split: if_splits option.splits dest: tf_executeWhere)
  have t3: "pipeline_totals_free p3"
    using s3 t2
    by (auto split: if_splits option.splits dest: tf_executeAggregation
          intro!: tf_executeDistinct tf_executeExpression)
  show ?thesis
    using s4 t3
    by (auto simp: bind_result_Inr Let_def split: if_splits dest: tf_executeOrder
          intro!: tf_executeDistinct tf_executePreLimit)
qed


lemma tf_if:
  "pipeline_totals_free x \<Longrightarrow> pipeline_totals_free y
     \<Longrightarrow> pipeline_totals_free (if c then x else y)"
  by simp

lemma tf_second_stage_aggregate:
  assumes tf: "pipeline_totals_free p"
    and fin: "need_aggregate ex \<longrightarrow> fin"
    and nt: "\<not> group_by_with_totals (clauses (query i))"
    and r: "second_stage_aggregate i ex ov fin p = Inr (b, p1)"
  shows "pipeline_totals_free p1"
proof (cases "need_aggregate ex")
  case True
  with fin have f: fin by simp
  from r True f have "\<exists>q1 q2.
      (if \<not> first_stage ex then executeMergeAggregated i p ov fin else Inr p) = Inr q1
      \<and> (if has_having ex then
               (case before_having ex of
                  None \<Rightarrow> Inl (NULL_POINTER, q1)
                | Some bh \<Rightarrow> executeHaving i q1 bh)
             else Inr q1) = Inr q2
      \<and> p1 = executeDistinct i (executeExpression q2 (before_order_and_select ex))
                True (selected_columns ex)"
    by (auto simp: second_stage_aggregate_def bind_result_Inr Let_def)
  then obtain q1 q2 where
    a: "(if \<not> first_stage ex then executeMergeAggregated i p ov fin else Inr p) = Inr q1" and
    b: "(if has_having ex then
               (case before_having ex of
                  None \<Rightarrow> Inl (NULL_POINTER, q1)
                | Some bh \<Rightarrow> executeHaving i q1 bh)
             else Inr q1) = Inr q2" and
    c: "p1 = executeDistinct i (executeExpression q2 (before_order_and_select ex))
                True (selected_columns ex)"
    by (elim exE conjE)
  have t1: "pipeline_totals_free q1"
    using a tf by (auto split: if_splits dest: tf_executeMergeAggregated)
  have t2: "pipeline_totals_free q2"
    using b t1 by (auto split: if_splits option.splits dest: tf_executeHaving)
  show ?thesis
    unfolding c using t2 by (intro tf_executeDistinct tf_executeExpression)
next
  case False
  with r nt have "p1 = p" by (simp add: second_stage_aggregate_def Let_def)
  with tf show ?thesis by simp
qed

lemma tf_second_stage_order:
  "pipeline_totals_free p \<Longrightarrow> second_stage_order i ex fin p = Inr p'
     \<Longrightarrow> pipeline_totals_free p'"
  by (auto simp: second_stage_order_def split: if_splits
        dest: tf_executeOrder tf_executeMergeSorted)

lemma tf_second_stage_finish:
  assumes "pipeline_totals_free p" "second_stage_finish i ex b p = Inr p'"
  shows "pipeline_totals_free p'"
proof -
  let ?p3 = "if limit_length (clauses (query i)) \<noteq> None \<and> hasMoreThanOneStream p
                   \<and> \<not> distinct_q (clauses (query i))
                   \<and> \<not> has_limit_by ex \<and> \<not> extremes (settings i)
                then executePreLimit i p else p"
  let ?p4 = "if b \<or> limit_length (clauses (query i)) \<noteq> None
                \<or> limit_by_expression_list (clauses (query i)) \<noteq> None
                \<or> streams_with_non_joined_data ?p3 \<noteq> []
             then executeUnion i ?p3 else ?p3"
  let ?p5 = "if b then executeDistinct i ?p4 False (selected_columns ex) else ?p4"
  have t3: "pipeline_totals_free ?p3"
    by (rule tf_if [OF tf_executePreLimit [OF assms(1)] assms(1)])
  have t4: "pipeline_totals_free ?p4"
    by (rule tf_if [OF tf_executeUnion [OF t3] t3])
  have t5: "pipeline_totals_free ?p5"
    by (rule tf_if [OF tf_executeDistinct [OF t4] t4])
  from assms(2) obtain p6 where
    l: "(if has_limit_by ex then
              (case before_limit_by ex of
                 None \<Rightarrow> Inl (NULL_POINTER, ?p5)
               | Some bl \<Rightarrow> Inr (executeLimitBy i (executeExpression ?p5 bl)))
            else Inr ?p5) = Inr p6"
    and e: "p' = executeLimit i (executeExtremes i (executeProjection p6 (final_projection ex)))"
    unfolding second_stage_finish_def Let_def bind_result_Inr by blast
  have t6: "pipeline_totals_free p6"
    using l t5
    by (auto split: if_splits option.splits intro!: tf_executeLimitBy tf_executeExpression)
  show ?thesis
    unfolding e using t6
    by (intro tf_executeLimit tf_executeExtremes tf_executeProjection)
qed

lemma tf_execute_second_stage:
  assumes tf: "pipeline_totals_free p"
    and fin: "need_aggregate ex \<longrightarrow> fin"
    and nt: "\<not> group_by_with_totals (clauses (query i))"
    and r: "execute_second_stage i ex ov fin p = Inr p'"
  shows "pipeline_totals_free p'"
proof -
  from r obtain b p1 p2 where
    h: "second_stage_aggregate i ex ov fin p = Inr (b, p1)" and
    o: "second_stage_order i ex fin p1 = Inr p2" and
    l: "second_stage_finish i ex b p2 = Inr p'"
    by (auto simp: execute_second_stage_def bind_result_Inr)
  have t1: "pipeline_totals_free p1"
    using tf_second_stage_aggregate [OF tf fin nt h] .
  have t2: "pipeline_totals_free p2"
    using tf_second_stage_order [OF t1 o] .
  show ?thesis
    using tf_second_stage_finish [OF t2 l] .
qed

lemma limit_optimization_query:
  "query (snd (limit_optimization i)) = query i"
  by (simp add: limit_optimization_def Let_def split_beta)

lemma fetch_from_storage_query:
  "fetch_from_storage i st r cols b d p = Inr (f, i1, p1) \<Longrightarrow> query i1 = query i"
  by (auto simp: fetch_from_storage_def Let_def split_beta split: if_splits)

lemma executeFetchColumns_query:
  assumes "executeFetchColumns i p d = Inr (f, i1, p1)"
  shows "query i1 = query i"
  using assms limit_optimization_query [of "i\<lparr>max_streams := max_distributed_connections (settings i)\<rparr>"]
    limit_optimization_query [of i]
  by (auto simp: executeFetchColumns_def Let_def split_beta bind_result_def
        split: if_splits option.splits sum.splits dest!: fetch_from_storage_query)

lemma tf_executeImpl:
  assumes nt: "\<not> group_by_with_totals (clauses (query i))"
    and st: "to_stage i = Complete"
    and f: "executeFetchColumns i
              (case input of None \<Rightarrow> p | Some s \<Rightarrow> p\<lparr>streams := streams p @ [s]\<rparr>) dry_run
            = Inr (from_stage, i1, p1)"
    and tf: "pipeline_totals_free p1"
    and r: "executeImpl i p input dry_run = Inr (i', p')"
  shows "pipeline_totals_free p'"
proof -
  have q1: "query i1 = query i" using f by (rule executeFetchColumns_query)
  have s1: "to_stage i1 = Complete" using executeFetchColumns_to_stage [OF f] st by simp
  let ?ex = "analyzeExpressions i1 from_stage"
  let ?ov = "need_aggregate ?ex \<and> group_by_with_totals (clauses (query i1))
             \<and> max_rows_to_group_by (settings i1) \<noteq> 0
             \<and> group_by_overflow_mode (settings i1) = ANY
             \<and> totals_mode (settings i1) \<noteq> AFTER_HAVING_EXCLUSIVE"
  let ?fin = "need_aggregate ?ex \<and> stage_lt WithMergeableState (to_stage i1)
              \<and> \<not> group_by_with_totals (clauses (query i1))"
  have fin: "need_aggregate ?ex \<longrightarrow> ?fin"
    using q1 s1 nt by (simp add: stage_lt_def)
  have nt1: "\<not> group_by_with_totals (clauses (query i1))" using q1 nt by simp
  from r f s1 obtain p2 p3 where
    a: "(if first_stage ?ex then execute_first_stage i1 ?ex ?ov ?fin p1 else Inr p1) = Inr p2" and
    b: "(if second_stage ?ex then execute_second_stage i1 ?ex ?ov ?fin p2 else Inr p2) = Inr p3" and
    c: "(if subqueries_for_sets ?ex \<noteq> []
         then executeSubqueriesInSetsAndJoins i1 p3 (subqueries_for_sets ?ex)
         else Inr p3) = Inr p'"
    by (auto simp: executeImpl_def bind_result_Inr Let_def stage_lt_def split: if_splits)
  have t2: "pipeline_totals_free p2"
    using a tf by (auto split: if_splits dest: tf_execute_first_stage)
  have t3: "pipeline_totals_free p3"
    using b t2 tf_execute_second_stage [OF t2 fin nt1] by (auto split: if_splits)
  show ?thesis
    using c t3 by (auto split: if_splits dest: tf_executeSubqueries)
qed

text \<open>
  Claim C10.  When the FROM clause is a subquery, the interpreter of the subquery that
  builds the inner pipeline holds the SELECTs of the subquery with WITH TOTALS cleared
  (\<open>group_by_with_totals\<close> false, everything else unchanged) if the outer query has
  aggregation, and holds them unchanged if it has none; when its construction and its
  nested build return, the streams of the outer pipeline are the ones this interpreter
  builds.  With the modifier cleared, a pipeline
  build for such an inner SELECT (target stage Complete) attaches no totals operator to
  the streams it fetched.
\<close>

theorem executeFetchColumns_ignoreWithTotals:
  "table (query i) = Some (ASTSelectWithUnionQuery selects) \<longrightarrow>
     (\<exists>u. interpreter_subquery i (snd (alias_actions_and_columns i)) = Some u
        \<and> map (table \<circ> query) (nested_interpreters u) = map table selects
        \<and> map to_stage (nested_interpreters u) = map (\<lambda>q. Complete) selects
        \<and> (hasAggregation (query_analyzer i) \<longrightarrow>
             map (clauses \<circ> query) (nested_interpreters u)
             = map (\<lambda>q. (clauses q)\<lparr>group_by_with_totals := False\<rparr>) selects)
        \<and> (\<not> hasAggregation (query_analyzer i) \<longrightarrow>
             map query (nested_interpreters u) = selects)
        \<and> (storage i = None \<and> streams p = []
            \<and> \<not> (max_columns_to_read (settings i) \<noteq> 0
                  \<and> unat (max_columns_to_read (settings i))
                      < length (snd (alias_actions_and_columns i)))
            \<and> subquery_construction_error i (snd (alias_actions_and_columns i)) = None
            \<and> subquery_executeWithMultipleStreams i u = Inr ss
            \<longrightarrow> executeFetchColumns i p False =
                  Inr (FetchColumns, snd (limit_optimization i),
                       p\<lparr>streams := ss\<rparr>))
        \<and> (hasAggregation (query_analyzer i) \<longrightarrow>
             (\<forall>n (j :: InterpreterSelectQuery) input q dry_run from_stage j1 p1 j' p'.
                n \<in> set (nested_interpreters u)
                \<and> query j = query n \<and> to_stage j = to_stage n
                \<and> executeFetchColumns j
                     (case input of None \<Rightarrow> q | Some s \<Rightarrow> q\<lparr>streams := streams q @ [s]\<rparr>)
                     dry_run = Inr (from_stage, j1, p1)
                \<and> pipeline_totals_free p1
                \<and> executeImpl j q input dry_run = Inr (j', p')
                \<longrightarrow> pipeline_totals_free p')))"
proof
  assume t: "table (query i) = Some (ASTSelectWithUnionQuery selects)"
  let ?cols = "snd (alias_actions_and_columns i)"
  obtain u where u: "interpreter_subquery i ?cols = Some u"
    using t by (simp add: interpreter_subquery_def Let_def)
  have tables: "map (table \<circ> query) (nested_interpreters u) = map table selects"
    using u t
    by (cases "hasAggregation (query_analyzer i)")
       (auto simp: interpreter_subquery_def new_InterpreterSelectWithUnionQuery_def
          ignoreWithTotals_union_def ignoreWithTotals_def comp_def Let_def)
  have stages: "map to_stage (nested_interpreters u) = map (\<lambda>q. Complete) selects"
    using u t
    by (cases "hasAggregation (query_analyzer i)")
       (auto simp: interpreter_subquery_def new_InterpreterSelectWithUnionQuery_def
          ignoreWithTotals_union_def ignoreWithTotals_def comp_def Let_def)
  have cleared: "hasAggregation (query_analyzer i) \<longrightarrow>
             map (clauses \<circ> query) (nested_interpreters u)
             = map (\<lambda>q. (clauses q)\<lparr>group_by_with_totals := False\<rparr>) selects"
    using u t
    by (auto simp: interpreter_subquery_def new_InterpreterSelectWithUnionQuery_def
          ignoreWithTotals_union_def ignoreWithTotals_def comp_def Let_def)
  have kept: "\<not> hasAggregation (query_analyzer i) \<longrightarrow>
             map query (nested_interpreters u) = selects"
    using u t
    by (auto simp: interpreter_subquery_def new_InterpreterSelectWithUnionQuery_def comp_def
          Let_def map_idI)
  have run: "storage i = None \<and> streams p = []
            \<and> \<not> (max_columns_to_read (settings i) \<noteq> 0
                  \<and> unat (max_columns_to_read (settings i))
                      < length (snd (alias_actions_and_columns i)))
            \<and> subquery_construction_error i (snd (alias_actions_and_columns i)) = None
            \<and> subquery_executeWithMultipleStreams i u = Inr ss
            \<longrightarrow> executeFetchColumns i p False =
                  Inr (FetchColumns, snd (limit_optimization i),
                       p\<lparr>streams := ss\<rparr>)"
  proof
    assume h: "storage i = None \<and> streams p = []
            \<and> \<not> (max_columns_to_read (settings i) \<noteq> 0
                  \<and> unat (max_columns_to_read (settings i))
                      < length (snd (alias_actions_and_columns i)))
            \<and> subquery_construction_error i (snd (alias_actions_and_columns i)) = None
            \<and> subquery_executeWithMultipleStreams i u = Inr ss"
    then have al: "fst (alias_actions_and_columns i) = None"
      by (simp add: alias_actions_and_columns_def Let_def)
    show "executeFetchColumns i p False =
                  Inr (FetchColumns, snd (limit_optimization i),
                       p\<lparr>streams := ss\<rparr>)"
      using u h al
      by (auto simp: executeFetchColumns_def Let_def split_beta bind_result_def)
  qed
  have inner: "hasAggregation (query_analyzer i) \<longrightarrow>
             (\<forall>n (j :: InterpreterSelectQuery) input q dry_run from_stage j1 p1 j' p'.
                n \<in> set (nested_interpreters u)
                \<and> query j = query n \<and> to_stage j = to_stage n
                \<and> executeFetchColumns j
                     (case input of None \<Rightarrow> q | Some s \<Rightarrow> q\<lparr>streams := streams q @ [s]\<rparr>)
                     dry_run = Inr (from_stage, j1, p1)
                \<and> pipeline_totals_free p1
                \<and> executeImpl j q input dry_run = Inr (j', p')
                \<longrightarrow> pipeline_totals_free p')"
  proof (intro impI allI)
    fix n and j :: InterpreterSelectQuery and input q dry_run from_stage j1 p1 j' p'
    assume agg: "hasAggregation (query_analyzer i)"
    assume h: "n \<in> set (nested_interpreters u)
                \<and> query j = query n \<and> to_stage j = to_stage n
                \<and> executeFetchColumns j
                     (case input of None \<Rightarrow> q | Some s \<Rightarrow> q\<lparr>streams := streams q @ [s]\<rparr>)
                     dry_run = Inr (from_stage, j1, p1)
                \<and> pipeline_totals_free p1
                \<and> executeImpl j q input dry_run = Inr (j', p')"
    have "to_stage n \<in> set (map to_stage (nested_interpreters u))"
      using h by simp
    then have c: "to_stage n = Complete"
      unfolding stages by auto
    have "clauses (query n) \<in> set (map (clauses \<circ> query) (nested_interpreters u))"
      using h by auto
    then have "clauses (query n)
                 \<in> set (map (\<lambda>q. (clauses q)\<lparr>group_by_with_totals := False\<rparr>) selects)"
      using cleared agg by simp
    then have nt: "\<not> group_by_with_totals (clauses (query n))"
      by auto
    show "pipeline_totals_free p'"
    proof (rule tf_executeImpl)
      show "\<not> group_by_with_totals (clauses (query j))" using nt h by simp
      show "to_stage j = Complete" using c h by simp
      show "executeFetchColumns j
              (case input of None \<Rightarrow> q | Some s \<Rightarrow> q\<lparr>streams := streams q @ [s]\<rparr>) dry_run
            = Inr (from_stage, j1, p1)" using h by simp
      show "pipeline_totals_free p1" using h by simp
      show "executeImpl j q input dry_run = Inr (j', p')" using h by simp
    qed
  qed
  have "interpreter_subquery i (snd (alias_actions_and_columns i)) = Some u
        \<and> map (table \<circ> query) (nested_interpreters u) = map table selects
        \<and> map to_stage (nested_interpreters u) = map (\<lambda>q. Complete) selects
        \<and> (hasAggregation (query_analyzer i) \<longrightarrow>
             map (clauses \<circ> query) (nested_interpreters u)
             = map (\<lambda>q. (clauses q)\<lparr>group_by_with_totals := False\<rparr>) selects)
        \<and> (\<not> hasAggregation (query_analyzer i) \<longrightarrow>
             map query (nested_interpreters u) = selects)
        \<and> (storage i = None \<and> streams p = []
            \<and> \<not> (max_columns_to_read (settings i) \<noteq> 0
                  \<and> unat (max_columns_to_read (settings i))
                      < length (snd (alias_actions_and_columns i)))
            \<and> subquery_construction_error i (snd (alias_actions_and_columns i)) = None
            \<and> subquery_executeWithMultipleStreams i u = Inr ss
            \<longrightarrow> executeFetchColumns i p False =
                  Inr (FetchColumns, snd (limit_optimization i),
                       p\<lparr>streams := ss\<rparr>))
        \<and> (hasAggregation (query_analyzer i) \<longrightarrow>
             (\<forall>n (j :: InterpreterSelectQuery) input q dry_run from_stage j1 p1 j' p'.
                n \<in> set (nested_interpreters u)
                \<and> query j = query n \<and> to_stage j = to_stage n
                \<and> executeFetchColumns j
                     (case input of None \<Rightarrow> q | Some s \<Rightarrow> q\<lparr>streams := streams q @ [s]\<rparr>)
                     dry_run = Inr (from_stage, j1, p1)
                \<and> pipeline_totals_free p1
                \<and> executeImpl j q input dry_run = Inr (j', p')
                \<longrightarrow> pipeline_totals_free p'))"
    using u tables stages cleared kept run inner by (intro conjI)
  then show "\<exists>u. interpreter_subquery i (snd (alias_actions_and_columns i)) = Some u
        \<and> map (table \<circ> query) (nested_interpreters u) = map table selects
        \<and> map to_stage (nested_interpreters u) = map (\<lambda>q. Complete) selects
        \<and> (hasAggregation (query_analyzer i) \<longrightarrow>
             map (clauses \<circ> query) (nested_interpreters u)
             = map (\<lambda>q. (clauses q)\<lparr>group_by_with_totals := False\<rparr>) selects)
        \<and> (\<not> hasAggregation (query_analyzer i) \<longrightarrow>
             map query (nested_interpreters u) = selects)
        \<and> (storage i = None \<and> streams p = []
            \<and> \<not> (max_columns_to_read (settings i) \<noteq> 0
                  \<and> unat (max_columns_to_read (settings i))
                      < length (snd (alias_actions_and_columns i)))
            \<and> subquery_construction_error i (snd (alias_actions_and_columns i)) = None
            \<and> subquery_executeWithMultipleStreams i u = Inr ss
            \<longrightarrow> executeFetchColumns i p False =
                  Inr (FetchColumns, snd (limit_optimization i),
                       p\<lparr>streams := ss\<rparr>))
        \<and> (hasAggregation (query_analyzer i) \<longrightarrow>
             (\<forall>n (j :: InterpreterSelectQuery) input q dry_run from_stage j1 p1 j' p'.
                n \<in> set (nested_interpreters u)
                \<and> query j = query n \<and> to_stage j = to_stage n
                \<and> executeFetchColumns j
                     (case input of None \<Rightarrow> q | Some s \<Rightarrow> q\<lparr>streams := streams q @ [s]\<rparr>)
                     dry_run = Inr (from_stage, j1, p1)
                \<and> pipeline_totals_free p1
                \<and> executeImpl j q input dry_run = Inr (j', p')
                \<longrightarrow> pipeline_totals_free p'))"
    by (rule exI)
qed

theorem executeFetchColumns_ignoreWithTotals_witness:
  "executeFetchColumns (over_subquery_interpreter True) empty_pipeline False
     = Inr (FetchColumns, over_subquery_interpreter True,
            \<lparr>streams = [SourceStream 0], streams_with_non_joined_data = []\<rparr>)
   \<and> executeFetchColumns (over_subquery_interpreter False) empty_pipeline False
     = Inr (FetchColumns, over_subquery_interpreter False,
            \<lparr>streams = [SourceStream 1], streams_with_non_joined_data = []\<rparr>)
   \<and> built_totals_free (executeImpl (grouping_interpreter False) empty_pipeline None False)
     = Some True
   \<and> built_totals_free (executeImpl (grouping_interpreter True) empty_pipeline None False)
     = Some False"
proof -
  have cleared:
    "built_totals_free (executeImpl (grouping_interpreter False) empty_pipeline None False)
     = Some True"
    by code_simp
  have kept:
    "built_totals_free (executeImpl (grouping_interpreter True) empty_pipeline None False)
     = Some False"
    by code_simp
  show ?thesis
    using executeFetchColumns_ignoreWithTotals
            [of "over_subquery_interpreter True" "[sum_with_totals]" empty_pipeline]
          executeFetchColumns_ignoreWithTotals
            [of "over_subquery_interpreter False" "[sum_with_totals]" empty_pipeline]
          cleared kept
    by (simp add: over_subquery_interpreter_def example_interpreter_def example_clauses_def
          example_settings_def example_analyzer_def empty_pipeline_def sum_with_totals_def
          executeFetchColumns_def alias_actions_and_columns_def interpreter_subquery_def
          subquery_construction_error_def too_deep_subqueries_def
          new_InterpreterSelectWithUnionQuery_def ignoreWithTotals_union_def
          ignoreWithTotals_def limit_optimization_def getLimitLengthAndOffset_def
          bind_result_def Let_def)
qed

subsection \<open>The pipeline builder\<close>

lemma fetch_from_storage_read:
  "fetch_from_storage i st r cols b d p = Inr (f, i1, p1)
     \<Longrightarrow> streams p1 \<noteq> [] \<and> (f \<noteq> FetchColumns \<longrightarrow> \<not> d)"
  by (auto simp: fetch_from_storage_def Let_def split_beta transform_def split: if_splits)

lemma executeFetchColumns_beyond_FetchColumns:
  assumes "executeFetchColumns i p d = Inr (f, i1, p1)" and "f \<noteq> FetchColumns"
  shows "streams p1 \<noteq> [] \<and> \<not> d \<and> storage i \<noteq> None"
  using assms
  by (auto simp: executeFetchColumns_def Let_def split_beta bind_result_def
        split: if_splits option.splits sum.splits dest!: fetch_from_storage_read)

text \<open>
  Claim C2 as stated fails in its last part.  With a storage that processes the query to
  mergeable state and returns no stream, and target stage WithMergeableState, the error
  is raised, but not before any operator is built: at the throw the pipeline holds the
  empty-schema operator that the builder itself put in place of the missing streams,
  with the table lock and the read limits attached.
\<close>

theorem executeImpl_rejects_remote_to_remote_counterexample:
  "executeImpl mergeable_empty_interpreter empty_pipeline None False =
     Inl (NOT_IMPLEMENTED,
          \<lparr>streams = [SetLimits (AddTableLock (NullBlockInputStream [''k'', ''v'']))
                        \<lparr>max_rows = 0, max_bytes = 0, overflow_mode = THROW\<rparr> False],
           streams_with_non_joined_data = []\<rparr>)
   \<and> to_stage mergeable_empty_interpreter = WithMergeableState
   \<and> \<not> no_streams
          \<lparr>streams = [SetLimits (AddTableLock (NullBlockInputStream [''k'', ''v'']))
                        \<lparr>max_rows = 0, max_bytes = 0, overflow_mode = THROW\<rparr> False],
           streams_with_non_joined_data = []\<rparr>"
  by (simp add: executeImpl_def mergeable_empty_interpreter_def example_interpreter_def
        example_clauses_def example_settings_def example_analyzer_def example_storage_def
        empty_pipeline_def executeFetchColumns_def alias_actions_and_columns_def
        interpreter_subquery_def subquery_construction_error_def fetch_from_storage_def
        read_limits_def transform_def limit_optimization_def getLimitLengthAndOffset_def
        bind_result_def no_streams_def Let_def)

text \<open>
  Claim C2, amended.  Whenever the fetch stage reports from_stage = WithMergeableState
  and the target stage is WithMergeableState, \<open>executeImpl\<close> raises the error of an
  unsupported remote-to-remote configuration (NOT_IMPLEMENTED), and it raises it right
  after the fetch stage, before the analysis and before any later step attaches an
  operator: the pipeline at the throw is exactly the one the fetch stage returned.  That
  pipeline is never empty: the fetch was a read of a storage, not a dry run, and it
  holds the operators of the storage, or the empty-schema operator in their place.
\<close>

theorem executeImpl_rejects_remote_to_remote:
  "executeFetchColumns i
     (case input of None \<Rightarrow> p | Some s \<Rightarrow> p\<lparr>streams := streams p @ [s]\<rparr>) dry_run
     = Inr (WithMergeableState, i1, p1)
   \<and> to_stage i = WithMergeableState
   \<longrightarrow> executeImpl i p input dry_run = Inl (NOT_IMPLEMENTED, p1)
       \<and> streams p1 \<noteq> [] \<and> \<not> dry_run \<and> storage i \<noteq> None"
proof
  assume a: "executeFetchColumns i
     (case input of None \<Rightarrow> p | Some s \<Rightarrow> p\<lparr>streams := streams p @ [s]\<rparr>) dry_run
     = Inr (WithMergeableState, i1, p1)
   \<and> to_stage i = WithMergeableState"
  then have "to_stage i1 = WithMergeableState"
    using executeFetchColumns_to_stage by metis
  with a have thrown: "executeImpl i p input dry_run = Inl (NOT_IMPLEMENTED, p1)"
    by (simp add: executeImpl_def bind_result_def)
  have "streams p1 \<noteq> [] \<and> \<not> dry_run \<and> storage i \<noteq> None"
    using a executeFetchColumns_beyond_FetchColumns
            [of i "case input of None \<Rightarrow> p | Some s \<Rightarrow> p\<lparr>streams := streams p @ [s]\<rparr>"
                dry_run WithMergeableState i1 p1]
    by simp
  with thrown show "executeImpl i p input dry_run = Inl (NOT_IMPLEMENTED, p1)
       \<and> streams p1 \<noteq> [] \<and> \<not> dry_run \<and> storage i \<noteq> None"
    by simp
qed

theorem executeImpl_rejects_remote_to_remote_witness:
  "to_stage mergeable_interpreter = WithMergeableState
   \<and> executeImpl mergeable_interpreter empty_pipeline None False =
       Inl (NOT_IMPLEMENTED,
            \<lparr>streams = [SetLimits (AddTableLock (SourceStream 0))
                          \<lparr>max_rows = 0, max_bytes = 0, overflow_mode = THROW\<rparr> False],
             streams_with_non_joined_data = []\<rparr>)"
  using executeImpl_rejects_remote_to_remote [where i = mergeable_interpreter and input = None and p = empty_pipeline
              and dry_run = False and ?i1.0 = mergeable_interpreter
              and ?p1.0 = "\<lparr>streams = [SetLimits (AddTableLock (SourceStream 0))
                          \<lparr>max_rows = 0, max_bytes = 0, overflow_mode = THROW\<rparr> False],
               streams_with_non_joined_data = []\<rparr>"]
  by (simp add: mergeable_interpreter_def example_interpreter_def example_clauses_def
        example_settings_def example_analyzer_def example_storage_def empty_pipeline_def
        executeFetchColumns_def alias_actions_and_columns_def interpreter_subquery_def
        subquery_construction_error_def
        fetch_from_storage_def read_limits_def transform_def
        limit_optimization_def getLimitLengthAndOffset_def
        bind_result_def Let_def)

end
